theory Spec2Isabelle
  imports Complex_Main "HOL-Library.Word"
begin

unbundle bit_operations_syntax

section \<open>Common types\<close>

text \<open>
  A Python \<open>bytes\<close> value is a list of 8-bit words; reading an element gives its value
  as a natural number (\<open>unat\<close>). Exceptions are values of \<open>error\<close>; a function that can
  raise returns \<open>error + 'a\<close> with \<open>Inl\<close> for the exception. Wall-clock readings
  (\<open>time.time()\<close>, seconds) are passed in as a parameter of type \<open>real\<close>.
\<close>

type_synonym byte = "8 word"

datatype error = ValueError | IndexError | KeyError | UnicodeEncodeError | OverflowError

text \<open>\<open>bytes([...])\<close> of Python integers: raises ValueError unless every element is in
  \<open>range(256)\<close>.\<close>

definition bytes_of :: "int list \<Rightarrow> error + byte list" where
  "bytes_of xs =
     (if list_all (\<lambda>x. 0 \<le> x \<and> x < 256) xs then Inr (map word_of_int xs) else Inl ValueError)"

text \<open>Sequencing of steps that can raise: the first exception ends the computation.\<close>

definition bind_result :: "error + 'a \<Rightarrow> ('a \<Rightarrow> error + 'b) \<Rightarrow> error + 'b" where
  "bind_result r f = (case r of Inl e \<Rightarrow> Inl e | Inr x \<Rightarrow> f x)"

section \<open>ISO-TP frame codec (lib/isotp.py)\<close>

datatype FrameType = SINGLE_FRAME | FIRST_FRAME | CONSECUTIVE_FRAME | FLOW_CONTROL

datatype FlowStatus = CONTINUE_TO_SEND | WAIT | OVERFLOW

fun FlowStatus_value :: "FlowStatus \<Rightarrow> nat" where
  "FlowStatus_value CONTINUE_TO_SEND = 0x00"
| "FlowStatus_value WAIT = 0x01"
| "FlowStatus_value OVERFLOW = 0x02"

record ISOTPConfig =
  stmin :: int
  block_size :: int
  timeout_ms :: int
  padding :: bool


text \<open>\<open>ISOTPFrame.parse\<close>. \<open>data[1]\<close> of a one-byte First frame raises IndexError; the
  slices \<open>data[1:1+length]\<close>, \<open>data[2:]\<close>, \<open>data[1:]\<close> and \<open>data[1:3]\<close> never raise.\<close>

definition parse :: "byte list \<Rightarrow> error + (FrameType \<times> byte list)" where
  "parse dat =
     (if length dat = 0 then Inl ValueError
      else
        let pci_byte = unat (dat ! 0);
            frame_type_nibble = pci_byte AND 0xF0
        in if frame_type_nibble = 0x00 then
             (let len = pci_byte AND 0x0F in Inr (SINGLE_FRAME, take len (drop 1 dat)))
           else if frame_type_nibble = 0x10 then
             (if length dat < 2 then Inl IndexError
              else Inr (FIRST_FRAME, drop 2 dat))
           else if frame_type_nibble = 0x20 then Inr (CONSECUTIVE_FRAME, drop 1 dat)
           else if frame_type_nibble = 0x30 then Inr (FLOW_CONTROL, take 2 (drop 1 dat))
           else Inl ValueError)"

text \<open>The common tail of the four constructors:
  \<open>if padding and len(frame) < 8: frame += bytes([0x00] * (8 - len(frame)))\<close>.\<close>

definition pad_frame :: "bool \<Rightarrow> byte list \<Rightarrow> byte list" where
  "pad_frame pad frame =
     (if pad \<and> length frame < 8 then frame @ replicate (8 - length frame) 0x00 else frame)"

text \<open>In the four constructors the PCI bytes handed to \<open>bytes([...])\<close> are below 256 by
  construction (a length of at most 7, or a value masked with \<open>0x0F\<close> or \<open>0xFF\<close>), so
  that conversion cannot raise and is written \<open>of_nat\<close>.\<close>

definition create_single_frame :: "byte list \<Rightarrow> bool \<Rightarrow> error + byte list" where
  "create_single_frame dat pad =
     (if length dat > 7 then Inl ValueError
      else
        let pci = 0x00 OR length dat;
            frame = [of_nat pci] @ dat
        in Inr (pad_frame pad frame))"

definition create_first_frame :: "nat \<Rightarrow> byte list \<Rightarrow> bool \<Rightarrow> error + byte list" where
  "create_first_frame total_length dat pad =
     (if total_length > 4095 then Inl ValueError
      else
        let pci_high = 0x10 OR ((drop_bit 8 total_length) AND 0x0F);
            pci_low = total_length AND 0xFF;
            frame = [of_nat pci_high, of_nat pci_low] @ take 6 dat
        in Inr (pad_frame pad frame))"

definition create_consecutive_frame :: "nat \<Rightarrow> byte list \<Rightarrow> bool \<Rightarrow> byte list" where
  "create_consecutive_frame seq_num dat pad =
     (let pci = 0x20 OR (seq_num AND 0x0F);
          frame = [of_nat pci] @ take 7 dat
      in pad_frame pad frame)"

definition create_flow_control :: "FlowStatus \<Rightarrow> int \<Rightarrow> int \<Rightarrow> bool \<Rightarrow> byte list" where
  "create_flow_control flow_status bs st pad =
     (let pci = 0x30 OR FlowStatus_value flow_status;
          frame = [of_nat pci, word_of_int (bs AND 0xFF), word_of_int (st AND 0xFF)]
      in pad_frame pad frame)"

section \<open>ISO-TP segmentation engine (lib/isotp.py)\<close>

text \<open>A \<open>can.Message\<close> (always with \<open>is_extended_id=False\<close>).\<close>

record Message =
  arbitration_id :: nat
  data :: "byte list"

text \<open>The fields shared by \<open>ISOTPSender\<close> and \<open>ISOTPReceiver\<close>. The bus is the
  environment: what an endpoint sends is returned as a list of messages, and what it
  receives is passed in.\<close>

record ISOTPSender =
  tx_id :: nat
  rx_id :: nat
  config :: ISOTPConfig

record ISOTPReceiver = ISOTPSender +
  receiving :: bool
  expected_length :: nat
  received_data :: "byte list"
  next_seq_num :: nat
  last_frame_time :: real

subsection \<open>Sender\<close>

definition send_single_frame :: "ISOTPSender \<Rightarrow> byte list \<Rightarrow> bool \<times> Message list" where
  "send_single_frame s payload =
     (case create_single_frame payload (padding (config s)) of
        Inl e \<Rightarrow> (False, [])
      | Inr frame_data \<Rightarrow> (True, [\<lparr>arbitration_id = tx_id s, data = frame_data\<rparr>]))"

text \<open>\<open>_wait_for_flow_control\<close>. The loop polls \<open>bus.recv(timeout=0.1)\<close> while the
  timeout has not passed; its argument here is the list of the results of the polls made
  before the timeout (\<open>None\<close> for a poll that returned nothing). Running out of polls is
  the timeout.\<close>

fun wait_for_flow_control :: "ISOTPSender \<Rightarrow> Message option list \<Rightarrow> bool" where
  "wait_for_flow_control s [] = False"
| "wait_for_flow_control s (None # polls) = wait_for_flow_control s polls"
| "wait_for_flow_control s (Some msg # polls) =
     (if arbitration_id msg = rx_id s then
        (case parse (data msg) of
           Inl e \<Rightarrow> wait_for_flow_control s polls
         | Inr (frame_type, dat) \<Rightarrow>
             if frame_type = FLOW_CONTROL then
               (let flow_status =
                      (if length dat > 0 then unat (dat ! 0)
                       else FlowStatus_value CONTINUE_TO_SEND)
                in if flow_status = FlowStatus_value CONTINUE_TO_SEND then True
                   else if flow_status = FlowStatus_value WAIT then
                     wait_for_flow_control s polls
                   else False)
             else wait_for_flow_control s polls)
      else wait_for_flow_control s polls)"

text \<open>The loop of \<open>_send_multi_frame\<close> over \<open>remaining = payload[6:]\<close>, returning the
  Consecutive frames it sends (the sleep of \<open>stmin\<close> milliseconds between them has no
  effect on the bytes).\<close>

function send_consecutive_frames ::
  "ISOTPSender \<Rightarrow> byte list \<Rightarrow> nat \<Rightarrow> nat \<Rightarrow> Message list" where
  "send_consecutive_frames s remaining seq_num offset =
     (if offset < length remaining then
        (let chunk = take 7 (drop offset remaining);
             cf_data = create_consecutive_frame seq_num chunk (padding (config s))
         in \<lparr>arbitration_id = tx_id s, data = cf_data\<rparr>
              # send_consecutive_frames s remaining ((seq_num + 1) mod 16) (offset + 7))
      else [])"
  by pat_completeness auto
termination
  by (relation "measure (\<lambda>(s, remaining, seq_num, offset). length remaining - offset)") auto

declare send_consecutive_frames.simps [simp del]

definition send_multi_frame ::
  "ISOTPSender \<Rightarrow> Message option list \<Rightarrow> byte list \<Rightarrow> bool \<times> Message list" where
  "send_multi_frame s polls payload =
     (case create_first_frame (length payload) (take 6 payload) (padding (config s)) of
        Inl e \<Rightarrow> (False, [])
      | Inr ff_data \<Rightarrow>
          (let ff = \<lparr>arbitration_id = tx_id s, data = ff_data\<rparr>;
               fc_received = wait_for_flow_control s polls
           in if \<not> fc_received then (False, [ff])
              else (True, ff # send_consecutive_frames s (drop 6 payload) 1 0)))"

text \<open>\<open>ISOTPSender.send\<close>: the result and the frames put on the bus, in order.\<close>

definition send :: "ISOTPSender \<Rightarrow> Message option list \<Rightarrow> byte list \<Rightarrow> bool \<times> Message list" where
  "send s polls payload =
     (if length payload \<le> 7 then send_single_frame s payload
      else send_multi_frame s polls payload)"

subsection \<open>Receiver\<close>

definition reset_reception :: "ISOTPReceiver \<Rightarrow> ISOTPReceiver" where
  "reset_reception r =
     r\<lparr>receiving := False, expected_length := 0, received_data := [],
       next_seq_num := 1, last_frame_time := 0\<rparr>"

definition send_flow_control :: "ISOTPReceiver \<Rightarrow> FlowStatus \<Rightarrow> Message list" where
  "send_flow_control r flow_status =
     (let fc_data = create_flow_control flow_status (block_size (config r)) (stmin (config r))
                      (padding (config r))
      in [\<lparr>arbitration_id = tx_id r, data = fc_data\<rparr>])"

text \<open>Each handler returns the delivered payload (if any), the new receiver state and
  the frames the receiver sent.\<close>

definition handle_single_frame ::
  "ISOTPReceiver \<Rightarrow> byte list \<Rightarrow> byte list option \<times> ISOTPReceiver \<times> Message list" where
  "handle_single_frame r dat = (Some dat, reset_reception r, [])"

definition handle_first_frame ::
  "ISOTPReceiver \<Rightarrow> real \<Rightarrow> byte list \<Rightarrow> byte list \<Rightarrow>
     byte list option \<times> ISOTPReceiver \<times> Message list" where
  "handle_first_frame r now dat raw_frame =
     (let pci_high = unat (raw_frame ! 0);
          pci_low = unat (raw_frame ! 1);
          r1 = r\<lparr>expected_length := (push_bit 8 (pci_high AND 0x0F)) OR pci_low,
                 received_data := take 6 dat,
                 next_seq_num := 1,
                 receiving := True,
                 last_frame_time := now\<rparr>
      in (None, r1, send_flow_control r1 CONTINUE_TO_SEND))"

definition handle_consecutive_frame ::
  "ISOTPReceiver \<Rightarrow> real \<Rightarrow> byte list \<Rightarrow> byte list \<Rightarrow>
     byte list option \<times> ISOTPReceiver \<times> Message list" where
  "handle_consecutive_frame r now dat raw_frame =
     (if \<not> receiving r then (None, r, [])
      else if now - last_frame_time r > real_of_int (timeout_ms (config r)) / 1000 then
        (None, reset_reception r, [])
      else
        let seq_num = unat (raw_frame ! 0) AND 0x0F
        in if seq_num \<noteq> next_seq_num r then (None, reset_reception r, [])
           else
             let remaining = int (expected_length r) - int (length (received_data r));
                 chunk_size = min 7 remaining;
                 r1 = r\<lparr>received_data := received_data r @ take (nat chunk_size) dat,
                        next_seq_num := (next_seq_num r + 1) mod 16,
                        last_frame_time := now\<rparr>
             in if length (received_data r1) \<ge> expected_length r1 then
                  (Some (take (expected_length r1) (received_data r1)), reset_reception r1, [])
                else (None, r1, []))"

text \<open>\<open>ISOTPReceiver.receive_frame\<close>; \<open>now\<close> is the reading of \<open>time.time()\<close> during
  the call. An exception of \<open>parse\<close> is caught: the reception is reset and nothing is
  delivered.\<close>

definition receive_frame ::
  "ISOTPReceiver \<Rightarrow> real \<Rightarrow> Message \<Rightarrow> byte list option \<times> ISOTPReceiver \<times> Message list" where
  "receive_frame r now msg =
     (if arbitration_id msg \<noteq> rx_id r then (None, r, [])
      else
        case parse (data msg) of
          Inl e \<Rightarrow> (None, reset_reception r, [])
        | Inr (frame_type, dat) \<Rightarrow>
            if frame_type = SINGLE_FRAME then handle_single_frame r dat
            else if frame_type = FIRST_FRAME then handle_first_frame r now dat (data msg)
            else if frame_type = CONSECUTIVE_FRAME then
              handle_consecutive_frame r now dat (data msg)
            else (None, r, []))"

subsection \<open>A sender paired with a receiver\<close>


text \<open>What the sender of \<open>payload\<close> hears on the bus while it waits for flow control,
  when its First frame reaches the receiver \<open>r\<close> at time \<open>now\<close>: the frames \<open>r\<close> sends in
  answer.\<close>

definition paired_polls :: "ISOTPSender \<Rightarrow> ISOTPReceiver \<Rightarrow> real \<Rightarrow> byte list \<Rightarrow> Message option list" where
  "paired_polls s r now payload =
     (case create_first_frame (length payload) (take 6 payload) (padding (config s)) of
        Inl e \<Rightarrow> []
      | Inr ff_data \<Rightarrow>
          (case receive_frame r now \<lparr>arbitration_id = tx_id s, data = ff_data\<rparr> of
             (res, r1, sent) \<Rightarrow> map Some sent))"

section \<open>Sensor model state (lib/vehicle_simulator.py)\<close>

text \<open>\<open>SensorData\<close> and \<open>DriveCycle\<close>; Python floats are modelled as reals.\<close>

record SensorData =
  rpm :: real
  engine_load :: real
  coolant_temp :: real
  intake_air_temp :: real
  maf :: real
  timing_advance :: real
  throttle_position :: real
  fuel_level :: real
  fuel_pressure :: real
  fuel_rate :: real
  vehicle_speed :: real
  distance_traveled :: real
  distance_with_mil :: real
  distance_since_clear :: real
  battery_voltage :: real
  o2_voltage :: real
  short_term_fuel_trim :: real
  long_term_fuel_trim :: real
  catalyst_temp :: real
  evap_vapor_pressure :: real
  barometric_pressure :: real
  engine_runtime :: real
  warmups_since_clear :: int
  mil_status :: bool

record DriveCycle =
  misfire_monitor_complete :: bool
  fuel_system_monitor_complete :: bool
  component_monitor_complete :: bool
  catalyst_monitor_complete :: bool
  heated_catalyst_monitor_complete :: bool
  evap_system_monitor_complete :: bool
  secondary_air_monitor_complete :: bool
  oxygen_sensor_monitor_complete :: bool
  oxygen_sensor_heater_complete :: bool
  egr_system_monitor_complete :: bool
  idle_time :: real
  cruise_time :: real
  accel_count :: int
  decel_count :: int
  cold_start_count :: int

text \<open>The field defaults of the \<open>SensorData\<close> dataclass.\<close>

definition default_SensorData :: SensorData where
  "default_SensorData =
     \<lparr>rpm = 0, engine_load = 0, coolant_temp = 20, intake_air_temp = 25, maf = 0,
      timing_advance = 0, throttle_position = 0, fuel_level = 75, fuel_pressure = 380,
      fuel_rate = 0, vehicle_speed = 0, distance_traveled = 0, distance_with_mil = 0,
      distance_since_clear = 0, battery_voltage = 12.6, o2_voltage = 0.45,
      short_term_fuel_trim = 0, long_term_fuel_trim = 0, catalyst_temp = 400,
      evap_vapor_pressure = 0, barometric_pressure = 101.3, engine_runtime = 0,
      warmups_since_clear = 0, mil_status = False\<rparr>"

text \<open>\<open>DriveCycle.reset\<close>.\<close>

definition DriveCycle_reset :: "DriveCycle \<Rightarrow> DriveCycle" where
  "DriveCycle_reset dc =
     dc\<lparr>misfire_monitor_complete := False,
        fuel_system_monitor_complete := False,
        component_monitor_complete := False,
        catalyst_monitor_complete := False,
        heated_catalyst_monitor_complete := False,
        evap_system_monitor_complete := False,
        secondary_air_monitor_complete := False,
        oxygen_sensor_monitor_complete := False,
        oxygen_sensor_heater_complete := False,
        egr_system_monitor_complete := False,
        idle_time := 0, cruise_time := 0, accel_count := 0, decel_count := 0,
        cold_start_count := 0\<rparr>"

text \<open>The part of \<open>VehicleSimulator\<close> that the service handlers reach through
  \<open>get_sensor_data\<close>, \<open>get_drive_cycle\<close> and \<open>reset_drive_cycle\<close>. Both getters return the
  live object, so a handler's assignment to a field of the returned value changes the
  simulator's state.\<close>

record VehicleSimulator =
  sensors :: SensorData
  drive_cycle :: DriveCycle

definition reset_drive_cycle :: "VehicleSimulator \<Rightarrow> VehicleSimulator" where
  "reset_drive_cycle v = v\<lparr>drive_cycle := DriveCycle_reset (drive_cycle v)\<rparr>"

section \<open>Fault registry (lib/dtc_manager.py)\<close>

datatype DTCState = PENDING | CONFIRMED | PERMANENT | HISTORY

text \<open>\<open>FreezeFrame\<close>; its fields carry the prefix \<open>ff_\<close> to keep them apart from those of
  \<open>SensorData\<close>.\<close>

record FreezeFrame =
  ff_timestamp :: real
  ff_rpm :: real
  ff_speed :: real
  ff_coolant_temp :: real
  ff_engine_load :: real
  ff_throttle_position :: real
  ff_fuel_pressure :: real
  ff_maf :: real
  ff_short_term_fuel_trim :: real
  ff_long_term_fuel_trim :: real
  ff_timing_advance :: real

definition capture :: "SensorData \<Rightarrow> real \<Rightarrow> FreezeFrame" where
  "capture s now =
     \<lparr>ff_timestamp = now, ff_rpm = rpm s, ff_speed = vehicle_speed s,
      ff_coolant_temp = coolant_temp s, ff_engine_load = engine_load s,
      ff_throttle_position = throttle_position s, ff_fuel_pressure = fuel_pressure s,
      ff_maf = maf s, ff_short_term_fuel_trim = short_term_fuel_trim s,
      ff_long_term_fuel_trim = long_term_fuel_trim s, ff_timing_advance = timing_advance s\<rparr>"

record DiagnosticTroubleCode =
  code :: string
  description :: string
  state :: DTCState
  detection_count :: int
  first_detected :: real
  last_detected :: real
  freeze_frame :: "FreezeFrame option"
  mil_illuminate :: bool
  is_emission_related :: bool

subsection \<open>Byte encoding of a code\<close>

text \<open>\<open>int(c)\<close> for a one-character string: the decimal digits convert, every other
  character raises ValueError.\<close>

definition int_of_digit :: "char \<Rightarrow> error + int" where
  "int_of_digit c =
     (if c = CHR ''0'' then Inr 0 else if c = CHR ''1'' then Inr 1
      else if c = CHR ''2'' then Inr 2 else if c = CHR ''3'' then Inr 3
      else if c = CHR ''4'' then Inr 4 else if c = CHR ''5'' then Inr 5
      else if c = CHR ''6'' then Inr 6 else if c = CHR ''7'' then Inr 7
      else if c = CHR ''8'' then Inr 8 else if c = CHR ''9'' then Inr 9
      else Inl ValueError)"

text \<open>\<open>type_map.get(c, 0)\<close> with \<open>type_map = {'P': 0, 'C': 1, 'B': 2, 'U': 3}\<close>.\<close>

definition type_map_get :: "char \<Rightarrow> int" where
  "type_map_get c =
     (if c = CHR ''P'' then 0 else if c = CHR ''C'' then 1
      else if c = CHR ''B'' then 2 else if c = CHR ''U'' then 3 else 0)"

text \<open>The body of \<open>to_bytes\<close> on the code string (the part service 0x19 repeats inline);
  \<open>code[0]\<close> of an empty string raises IndexError.\<close>

definition code_to_bytes :: "string \<Rightarrow> error + byte list" where
  "code_to_bytes c =
     (case c of
        [] \<Rightarrow> Inl IndexError
      | c0 # digits \<Rightarrow>
          (let code_type = type_map_get c0
           in if length digits \<noteq> 4 then bytes_of [0x00, 0x00]
              else
                bind_result (int_of_digit (digits ! 0)) (\<lambda>first_digit.
                bind_result (int_of_digit (digits ! 1)) (\<lambda>second_digit.
                  (let byte1 = push_bit 6 code_type OR push_bit 4 first_digit OR second_digit
                   in bind_result (int_of_digit (digits ! 2)) (\<lambda>third_digit.
                      bind_result (int_of_digit (digits ! 3)) (\<lambda>fourth_digit.
                        (let byte2 = push_bit 4 third_digit OR fourth_digit
                         in bytes_of [byte1, byte2]))))))))"

definition to_bytes :: "DiagnosticTroubleCode \<Rightarrow> error + byte list" where
  "to_bytes dtc = code_to_bytes (code dtc)"

text \<open>The decoder of the test client (test\_client\_v2.py, \<open>test_read_dtcs\<close>): the first
  digit is printed in decimal, the other three as upper-case hexadecimal digits.\<close>

definition hex_digit :: "nat \<Rightarrow> char" where
  "hex_digit n = ''0123456789ABCDEF'' ! n"

definition decode_dtc :: "byte \<Rightarrow> byte \<Rightarrow> string" where
  "decode_dtc b1 b2 =
     (let byte1 = unat b1; byte2 = unat b2;
          dtc_type = ''PCBU'' ! (drop_bit 6 byte1 AND 0x03);
          digit1 = drop_bit 4 byte1 AND 0x03;
          digit2 = byte1 AND 0x0F;
          digit3 = drop_bit 4 byte2 AND 0x0F;
          digit4 = byte2 AND 0x0F
      in [dtc_type, hex_digit digit1, hex_digit digit2, hex_digit digit3, hex_digit digit4])"

subsection \<open>Catalog\<close>

text \<open>\<open>DTC_DEFINITIONS\<close>, in the order of the source:
  code, (description, mil\_illuminate, is\_emission\_related).\<close>

definition DTC_DEFINITIONS :: "(string \<times> (string \<times> bool \<times> bool)) list" where
  "DTC_DEFINITIONS =
     [(''P0300'', (''Random/Multiple Cylinder Misfire Detected'', True, True)),
      (''P0301'', (''Cylinder 1 Misfire Detected'', True, True)),
      (''P0302'', (''Cylinder 2 Misfire Detected'', True, True)),
      (''P0303'', (''Cylinder 3 Misfire Detected'', True, True)),
      (''P0304'', (''Cylinder 4 Misfire Detected'', True, True)),
      (''P0171'', (''System Too Lean (Bank 1)'', True, True)),
      (''P0172'', (''System Too Rich (Bank 1)'', True, True)),
      (''P0174'', (''System Too Lean (Bank 2)'', True, True)),
      (''P0175'', (''System Too Rich (Bank 2)'', True, True)),
      (''P0128'', (''Coolant Thermostat (Coolant Temperature Below Thermostat Regulating Temperature)'', True, True)),
      (''P0420'', (''Catalyst System Efficiency Below Threshold (Bank 1)'', True, True)),
      (''P0430'', (''Catalyst System Efficiency Below Threshold (Bank 2)'', True, True)),
      (''P0440'', (''Evaporative Emission Control System Malfunction'', True, True)),
      (''P0442'', (''Evaporative Emission Control System Leak Detected (Small Leak)'', True, True)),
      (''P0443'', (''Evaporative Emission Control System Purge Control Valve Circuit Malfunction'', True, True)),
      (''P0446'', (''Evaporative Emission Control System Vent Control Circuit Malfunction'', True, True)),
      (''P0130'', (''O2 Sensor Circuit Malfunction (Bank 1, Sensor 1)'', True, True)),
      (''P0131'', (''O2 Sensor Circuit Low Voltage (Bank 1, Sensor 1)'', True, True)),
      (''P0132'', (''O2 Sensor Circuit High Voltage (Bank 1, Sensor 1)'', True, True)),
      (''P0133'', (''O2 Sensor Circuit Slow Response (Bank 1, Sensor 1)'', True, True)),
      (''P0134'', (''O2 Sensor Circuit No Activity Detected (Bank 1, Sensor 1)'', True, True)),
      (''P0100'', (''Mass or Volume Air Flow Circuit Malfunction'', True, False)),
      (''P0101'', (''Mass or Volume Air Flow Circuit Range/Performance Problem'', True, False)),
      (''P0102'', (''Mass or Volume Air Flow Circuit Low Input'', True, False)),
      (''P0103'', (''Mass or Volume Air Flow Circuit High Input'', True, False)),
      (''P0562'', (''System Voltage Low'', True, False)),
      (''P0563'', (''System Voltage High'', True, False)),
      (''P0401'', (''Exhaust Gas Recirculation Flow Insufficient Detected'', True, True)),
      (''P0402'', (''Exhaust Gas Recirculation Flow Excessive Detected'', True, True)),
      (''P0700'', (''Transmission Control System Malfunction'', False, False)),
      (''P0715'', (''Input/Turbine Speed Sensor Circuit Malfunction'', False, False)),
      (''P0720'', (''Output Speed Sensor Circuit Malfunction'', False, False)),
      (''P1000'', (''OBD System Readiness Test Not Complete'', False, False))]"

subsection \<open>Manager\<close>

text \<open>
  \<open>DTCManager\<close>. The dictionary \<open>self.dtcs\<close> maps a code to the object whose \<open>code\<close> field
  is that code (the only insertion is \<open>self.dtcs[code] = dtc\<close> with \<open>dtc.code = code\<close>, and
  the field is never assigned afterwards), so it is modelled as the list of its values in
  insertion order, which is the order Python iterates a dict in.
\<close>

record DTCManager =
  dtcs :: "DiagnosticTroubleCode list"
  mil_on :: bool
  pending_to_confirmed_threshold :: int
  healing_drive_cycles :: int
  drive_cycle_count :: int

definition new_DTCManager :: DTCManager where
  "new_DTCManager =
     \<lparr>dtcs = [], mil_on = False, pending_to_confirmed_threshold = 2,
      healing_drive_cycles = 40, drive_cycle_count = 0\<rparr>"

text \<open>\<open>self.dtcs[c]\<close> (\<open>None\<close> when \<open>c not in self.dtcs\<close>) and \<open>del self.dtcs[c]\<close>.\<close>

definition lookup_dtc :: "DiagnosticTroubleCode list \<Rightarrow> string \<Rightarrow> DiagnosticTroubleCode option" where
  "lookup_dtc ds c = find (\<lambda>d. code d = c) ds"

definition del_dtc :: "string \<Rightarrow> DiagnosticTroubleCode list \<Rightarrow> DiagnosticTroubleCode list" where
  "del_dtc c ds = filter (\<lambda>d. code d \<noteq> c) ds"

definition update_mil :: "DTCManager \<Rightarrow> DTCManager" where
  "update_mil m =
     m\<lparr>mil_on := list_ex (\<lambda>dtc. mil_illuminate dtc \<and> state dtc \<in> {CONFIRMED, PERMANENT})
                   (dtcs m)\<rparr>"

text \<open>The update of an existing entry in \<open>inject_dtc\<close>.\<close>

definition redetect :: "int \<Rightarrow> real \<Rightarrow> DiagnosticTroubleCode \<Rightarrow> DiagnosticTroubleCode" where
  "redetect threshold now dtc =
     (let dtc1 = dtc\<lparr>detection_count := detection_count dtc + 1, last_detected := now\<rparr>
      in if state dtc1 = PENDING \<and> detection_count dtc1 \<ge> threshold then
           (let dtc2 = dtc1\<lparr>state := CONFIRMED\<rparr>
            in if is_emission_related dtc2 then dtc2\<lparr>state := PERMANENT\<rparr> else dtc2)
         else dtc1)"

text \<open>\<open>inject_dtc\<close>; \<open>now\<close> is the reading of \<open>time.time()\<close>.\<close>

definition inject_dtc ::
  "DTCManager \<Rightarrow> string \<Rightarrow> SensorData \<Rightarrow> bool \<Rightarrow> real \<Rightarrow> bool \<times> DTCManager" where
  "inject_dtc m c sens capture_freeze_frame now =
     (case map_of DTC_DEFINITIONS c of
        None \<Rightarrow> (False, m)
      | Some (descr, mil, is_emission) \<Rightarrow>
          let m1 =
            (case lookup_dtc (dtcs m) c of
               Some dtc \<Rightarrow>
                 m\<lparr>dtcs := map (\<lambda>d. if code d = c
                                      then redetect (pending_to_confirmed_threshold m) now d
                                      else d) (dtcs m)\<rparr>
             | None \<Rightarrow>
                 let ff = (if capture_freeze_frame then Some (capture sens now) else None);
                     dtc = \<lparr>code = c, description = descr, state = PENDING,
                            detection_count = 1, first_detected = now, last_detected = now,
                            freeze_frame = ff, mil_illuminate = mil,
                            is_emission_related = is_emission\<rparr>
                 in m\<lparr>dtcs := dtcs m @ [dtc]\<rparr>)
          in (True, update_mil m1))"

text \<open>The loop of \<open>clear_dtcs\<close>: the codes cleared and the entries after the loop.\<close>

fun clear_loop ::
  "bool \<Rightarrow> DiagnosticTroubleCode list \<Rightarrow> string list \<times> DiagnosticTroubleCode list" where
  "clear_loop clear_permanent [] = ([], [])"
| "clear_loop clear_permanent (dtc # rest) =
     (case clear_loop clear_permanent rest of
        (cleared, rest') \<Rightarrow>
          if state dtc = PERMANENT \<and> \<not> clear_permanent then (cleared, dtc # rest')
          else if state dtc \<in> {PENDING, CONFIRMED} then
            (code dtc # cleared, dtc\<lparr>state := HISTORY\<rparr> # rest')
          else if clear_permanent \<and> state dtc = PERMANENT then
            (code dtc # cleared, dtc\<lparr>state := HISTORY\<rparr> # rest')
          else (cleared, dtc # rest'))"

definition get_dtcs_by_state :: "DTCManager \<Rightarrow> DTCState \<Rightarrow> DiagnosticTroubleCode list" where
  "get_dtcs_by_state m st = filter (\<lambda>dtc. state dtc = st) (dtcs m)"

text \<open>\<open>_cleanup_history\<close>: Python's \<open>sort\<close> is stable, as \<open>sort_key\<close> is;
  \<open>history_dtcs[:-max_history]\<close> is all but the last \<open>max_history\<close> entries.\<close>

definition cleanup_history :: "nat \<Rightarrow> DTCManager \<Rightarrow> DTCManager" where
  "cleanup_history max_history m =
     (let history_dtcs = get_dtcs_by_state m HISTORY
      in if length history_dtcs > max_history then
           (let sorted_dtcs = sort_key last_detected history_dtcs;
                oldest = take (length sorted_dtcs - max_history) sorted_dtcs
            in m\<lparr>dtcs := fold (\<lambda>dtc ds. del_dtc (code dtc) ds) oldest (dtcs m)\<rparr>)
         else m)"

definition clear_dtcs :: "DTCManager \<Rightarrow> bool \<Rightarrow> string list \<times> DTCManager" where
  "clear_dtcs m clear_permanent =
     (case clear_loop clear_permanent (dtcs m) of
        (cleared, ds) \<Rightarrow> (cleared, update_mil (cleanup_history 10 (m\<lparr>dtcs := ds\<rparr>))))"

definition get_pending_dtcs :: "DTCManager \<Rightarrow> DiagnosticTroubleCode list" where
  "get_pending_dtcs m = get_dtcs_by_state m PENDING"

definition get_confirmed_dtcs :: "DTCManager \<Rightarrow> DiagnosticTroubleCode list" where
  "get_confirmed_dtcs m = get_dtcs_by_state m CONFIRMED"

definition get_permanent_dtcs :: "DTCManager \<Rightarrow> DiagnosticTroubleCode list" where
  "get_permanent_dtcs m = get_dtcs_by_state m PERMANENT"

definition get_all_active_dtcs :: "DTCManager \<Rightarrow> DiagnosticTroubleCode list" where
  "get_all_active_dtcs m =
     filter (\<lambda>dtc. state dtc \<in> {PENDING, CONFIRMED, PERMANENT}) (dtcs m)"

definition get_dtc_count :: "DTCManager \<Rightarrow> nat" where
  "get_dtc_count m = length (get_confirmed_dtcs m) + length (get_permanent_dtcs m)"

definition is_mil_on :: "DTCManager \<Rightarrow> bool" where
  "is_mil_on m = mil_on m"

text \<open>\<open>drive_cycle_complete\<close>: pending entries not detected for
  \<open>healing_drive_cycles * 600\<close> seconds are deleted.\<close>

definition drive_cycle_complete :: "DTCManager \<Rightarrow> real \<Rightarrow> DTCManager" where
  "drive_cycle_complete m current_time =
     (let m1 = m\<lparr>drive_cycle_count := drive_cycle_count m + 1\<rparr>;
          healed = (\<lambda>dtc. state dtc = PENDING \<and>
                      current_time - last_detected dtc
                        > real_of_int (healing_drive_cycles m1 * 600))
      in update_mil (m1\<lparr>dtcs := filter (\<lambda>dtc. \<not> healed dtc) (dtcs m1)\<rparr>))"

text \<open>The operations of a manager, each with the clock reading of its call, and a run of
  operations from the state \<open>__init__\<close> leaves.\<close>

datatype DTCOperation =
    Inject string SensorData bool real
  | Clear bool
  | DriveCycleComplete real

fun apply_operation :: "DTCManager \<Rightarrow> DTCOperation \<Rightarrow> DTCManager" where
  "apply_operation m (Inject c sens cap now) = snd (inject_dtc m c sens cap now)"
| "apply_operation m (Clear clear_permanent) = snd (clear_dtcs m clear_permanent)"
| "apply_operation m (DriveCycleComplete now) = drive_cycle_complete m now"

definition mil_correct :: "DTCManager \<Rightarrow> bool" where
  "mil_correct m \<longleftrightarrow>
     (mil_on m \<longleftrightarrow>
        list_ex (\<lambda>dtc. state dtc \<in> {CONFIRMED, PERMANENT} \<and> mil_illuminate dtc) (dtcs m))"

section \<open>OBD-II service handler (lib/obd_services.py)\<close>

text \<open>The two objects both service handlers of an ECU hold: the vehicle simulator and the
  fault registry.\<close>

record ServiceHandler =
  vehicle :: VehicleSimulator
  dtc_manager :: DTCManager

record OBDServiceHandler = ServiceHandler +
  vin :: string
  calibration_id :: string
  ecu_name :: string

text \<open>\<open>int(x)\<close> of a float truncates towards zero.\<close>

definition py_int :: "real \<Rightarrow> int" where
  "py_int x = (if x \<ge> 0 then \<lfloor>x\<rfloor> else \<lceil>x\<rceil>)"

text \<open>The two bytes \<open>(v >> 8) & 0xFF, v & 0xFF\<close> of a value sent as a big-endian word.\<close>

definition hi_lo :: "int \<Rightarrow> int list" where
  "hi_lo v = [drop_bit 8 v AND 0xFF, v AND 0xFF]"

text \<open>\<open>s.encode('ascii')\<close>: raises UnicodeEncodeError on a character above 127.\<close>

definition encode_ascii :: "string \<Rightarrow> error + byte list" where
  "encode_ascii s =
     (if list_all (\<lambda>c. of_char c < (128::nat)) s then Inr (map (\<lambda>c. of_nat (of_char c)) s)
      else Inl UnicodeEncodeError)"

text \<open>\<open>b[:n].ljust(n, b'\x00')\<close>.\<close>

definition fit_bytes :: "nat \<Rightarrow> byte list \<Rightarrow> byte list" where
  "fit_bytes n b = take n b @ replicate (n - length (take n b)) 0x00"

text \<open>A response header followed by the two-byte encoding of each code, as modes 03, 07
  and 0A build it: \<open>bytes([sid, 0x00])\<close> when the list is empty, otherwise
  \<open>bytearray([sid, len(dtcs)])\<close> extended by \<open>dtc.to_bytes()\<close> for each code.\<close>

fun extend_to_bytes :: "byte list \<Rightarrow> DiagnosticTroubleCode list \<Rightarrow> error + byte list" where
  "extend_to_bytes response [] = Inr response"
| "extend_to_bytes response (dtc # rest) =
     bind_result (to_bytes dtc) (\<lambda>b. extend_to_bytes (response @ b) rest)"

definition dtc_list_response :: "int \<Rightarrow> DiagnosticTroubleCode list \<Rightarrow> error + byte list" where
  "dtc_list_response sid ds =
     (if ds = [] then bytes_of [sid, 0x00]
      else bind_result (bytes_of [sid, int (length ds)]) (\<lambda>response.
             extend_to_bytes response ds))"

definition mode_01_current_data :: "OBDServiceHandler \<Rightarrow> byte list \<Rightarrow> error + byte list" where
  "mode_01_current_data h request =
     (if length request < 2 then bytes_of [0x7F, 0x01, 0x12]
      else
        let pid = unat (request ! 1);
            s = sensors (vehicle h);
            dc = drive_cycle (vehicle h)
        in if pid = 0x00 then bytes_of [0x41, 0x00, 0xBF, 0xBF, 0xA8, 0x91]
           else if pid = 0x01 then
             (let dtc_count = min 127 (int (get_dtc_count (dtc_manager h)));
                  mil = (if is_mil_on (dtc_manager h) then 0x80 else 0x00);
                  byte_a = mil OR dtc_count;
                  b0 = (0x07 :: int);
                  b1 = (if misfire_monitor_complete dc then b0 AND NOT 0x01 else b0);
                  b2 = (if fuel_system_monitor_complete dc then b1 AND NOT 0x02 else b1);
                  byte_b = (if component_monitor_complete dc then b2 AND NOT 0x04 else b2);
                  c0 = (0x0F :: int);
                  c1 = (if catalyst_monitor_complete dc then c0 AND NOT 0x01 else c0);
                  c2 = (if heated_catalyst_monitor_complete dc then c1 AND NOT 0x02 else c1);
                  byte_c = (if evap_system_monitor_complete dc then c2 AND NOT 0x04 else c2);
                  d0 = (0x07 :: int);
                  d1 = (if oxygen_sensor_monitor_complete dc then d0 AND NOT 0x01 else d0);
                  d2 = (if oxygen_sensor_heater_complete dc then d1 AND NOT 0x02 else d1);
                  byte_d = (if egr_system_monitor_complete dc then d2 AND NOT 0x04 else d2)
              in bytes_of [0x41, 0x01, byte_a, byte_b, byte_c, byte_d])
           else if pid = 0x03 then bytes_of [0x41, 0x03, 0x02, 0x00]
           else if pid = 0x04 then bytes_of [0x41, 0x04, py_int (engine_load s * 255 / 100)]
           else if pid = 0x05 then bytes_of [0x41, 0x05, py_int (coolant_temp s + 40)]
           else if pid = 0x06 then
             bytes_of [0x41, 0x06,
                       max 0 (min 255 (py_int ((short_term_fuel_trim s + 100) * 128 / 100)))]
           else if pid = 0x07 then
             bytes_of [0x41, 0x07,
                       max 0 (min 255 (py_int ((long_term_fuel_trim s + 100) * 128 / 100)))]
           else if pid = 0x0B then bytes_of [0x41, 0x0B, py_int (30 + engine_load s * 0.7)]
           else if pid = 0x0C then bytes_of ([0x41, 0x0C] @ hi_lo (py_int (rpm s * 4)))
           else if pid = 0x0D then bytes_of [0x41, 0x0D, py_int (vehicle_speed s)]
           else if pid = 0x0E then
             bytes_of [0x41, 0x0E, max 0 (min 255 (py_int ((timing_advance s + 64) * 2)))]
           else if pid = 0x0F then bytes_of [0x41, 0x0F, py_int (intake_air_temp s + 40)]
           else if pid = 0x10 then bytes_of ([0x41, 0x10] @ hi_lo (py_int (maf s * 100)))
           else if pid = 0x11 then
             bytes_of [0x41, 0x11, py_int (throttle_position s * 255 / 100)]
           else if pid = 0x1C then bytes_of [0x41, 0x1C, 0x07]
           else if pid = 0x1F then bytes_of ([0x41, 0x1F] @ hi_lo (py_int (engine_runtime s)))
           else if pid = 0x20 then bytes_of [0x41, 0x20, 0xA0, 0x05, 0xB0, 0x11]
           else if pid = 0x21 then
             bytes_of ([0x41, 0x21] @ hi_lo (py_int (distance_with_mil s)))
           else if pid = 0x23 then
             bytes_of ([0x41, 0x23] @ hi_lo (py_int (fuel_pressure s * 10)))
           else if pid = 0x2F then bytes_of [0x41, 0x2F, py_int (fuel_level s * 255 / 100)]
           else if pid = 0x30 then bytes_of [0x41, 0x30, warmups_since_clear s]
           else if pid = 0x31 then
             bytes_of ([0x41, 0x31] @ hi_lo (py_int (distance_since_clear s)))
           else if pid = 0x33 then bytes_of [0x41, 0x33, py_int (barometric_pressure s)]
           else if pid = 0x40 then bytes_of [0x41, 0x40, 0x40, 0x00, 0x00, 0x00]
           else if pid = 0x42 then
             bytes_of ([0x41, 0x42] @ hi_lo (py_int (battery_voltage s * 1000)))
           else if pid = 0x5C then bytes_of [0x41, 0x5C, py_int (coolant_temp s + 10 + 40)]
           else bytes_of [0x7F, 0x01, 0x12])"

definition mode_02_freeze_frame :: "OBDServiceHandler \<Rightarrow> byte list \<Rightarrow> error + byte list" where
  "mode_02_freeze_frame h request =
     (if length request < 3 then bytes_of [0x7F, 0x02, 0x12]
      else
        let pid = unat (request ! 1);
            frame_num = int (unat (request ! 2));
            confirmed_dtcs = get_confirmed_dtcs (dtc_manager h)
        in if confirmed_dtcs = [] \<or> frame_num > 0 then bytes_of [0x7F, 0x02, 0x12]
           else
             case freeze_frame (confirmed_dtcs ! 0) of
               None \<Rightarrow> bytes_of [0x7F, 0x02, 0x12]
             | Some ff \<Rightarrow>
                 if pid = 0x0C then
                   bytes_of ([0x42, 0x0C, frame_num] @ hi_lo (py_int (ff_rpm ff * 4)))
                 else if pid = 0x0D then bytes_of [0x42, 0x0D, frame_num, py_int (ff_speed ff)]
                 else if pid = 0x05 then
                   bytes_of [0x42, 0x05, frame_num, py_int (ff_coolant_temp ff + 40)]
                 else if pid = 0x04 then
                   bytes_of [0x42, 0x04, frame_num, py_int (ff_engine_load ff * 255 / 100)]
                 else bytes_of [0x7F, 0x02, 0x12])"

definition mode_03_read_dtcs :: "OBDServiceHandler \<Rightarrow> byte list \<Rightarrow> error + byte list" where
  "mode_03_read_dtcs h request =
     (let confirmed_dtcs = get_confirmed_dtcs (dtc_manager h);
          permanent_dtcs = get_permanent_dtcs (dtc_manager h);
          all_dtcs = confirmed_dtcs @ permanent_dtcs
      in dtc_list_response 0x43 all_dtcs)"

text \<open>Mode 04 is the one handler that changes state: it clears the registry, resets the
  drive cycle and zeroes three counters of the live sensor data.\<close>

definition mode_04_clear_dtcs ::
  "OBDServiceHandler \<Rightarrow> byte list \<Rightarrow> (error + byte list) \<times> OBDServiceHandler" where
  "mode_04_clear_dtcs h request =
     (let h1 = h\<lparr>dtc_manager := snd (clear_dtcs (dtc_manager h) False)\<rparr>;
          h2 = h1\<lparr>vehicle := reset_drive_cycle (vehicle h1)\<rparr>;
          s = sensors (vehicle h2);
          s' = s\<lparr>distance_since_clear := 0, distance_with_mil := 0, warmups_since_clear := 0\<rparr>;
          h3 = h2\<lparr>vehicle := (vehicle h2)\<lparr>sensors := s'\<rparr>\<rparr>
      in (bytes_of [0x44], h3))"

definition mode_06_test_results :: "OBDServiceHandler \<Rightarrow> byte list \<Rightarrow> error + byte list" where
  "mode_06_test_results h request =
     bytes_of [0x46, 0x01, 0x01, 0x00, 0x0A, 0x00, 0xFF, 0x00, 0x45, 0x00, 0xFA]"

definition mode_07_pending_dtcs :: "OBDServiceHandler \<Rightarrow> byte list \<Rightarrow> error + byte list" where
  "mode_07_pending_dtcs h request = dtc_list_response 0x47 (get_pending_dtcs (dtc_manager h))"

definition mode_08_control_systems :: "OBDServiceHandler \<Rightarrow> byte list \<Rightarrow> error + byte list" where
  "mode_08_control_systems h request =
     (if length request < 2 then bytes_of [0x7F, 0x08, 0x12]
      else bytes_of [0x48, int (unat (request ! 1))])"

definition mode_09_vehicle_info :: "OBDServiceHandler \<Rightarrow> byte list \<Rightarrow> error + byte list" where
  "mode_09_vehicle_info h request =
     (if length request < 2 then bytes_of [0x7F, 0x09, 0x12]
      else
        let pid = unat (request ! 1)
        in if pid = 0x00 then bytes_of [0x49, 0x00, 0x55]
           else if pid = 0x02 then
             bind_result (encode_ascii (vin h)) (\<lambda>b.
             bind_result (bytes_of [0x49, 0x02, 0x01]) (\<lambda>hdr. Inr (hdr @ fit_bytes 17 b)))
           else if pid = 0x04 then
             bind_result (encode_ascii (calibration_id h)) (\<lambda>b.
             bind_result (bytes_of [0x49, 0x04, 0x01]) (\<lambda>hdr. Inr (hdr @ fit_bytes 16 b)))
           else if pid = 0x06 then
             bind_result (bytes_of [0x49, 0x06, 0x01]) (\<lambda>hdr.
               Inr (hdr @ [0x12, 0x34, 0x56, 0x78]))
           else if pid = 0x0A then
             bind_result (encode_ascii (ecu_name h)) (\<lambda>b.
             bind_result (bytes_of [0x49, 0x0A, 0x01]) (\<lambda>hdr. Inr (hdr @ fit_bytes 20 b)))
           else bytes_of [0x7F, 0x09, 0x12])"

definition mode_0A_permanent_dtcs :: "OBDServiceHandler \<Rightarrow> byte list \<Rightarrow> error + byte list" where
  "mode_0A_permanent_dtcs h request =
     dtc_list_response 0x4A (get_permanent_dtcs (dtc_manager h))"

text \<open>A handler's \<open>bytes\<close> result as the \<open>Optional[bytes]\<close> result of \<open>process\<close>.\<close>

definition returned :: "error + byte list \<Rightarrow> error + byte list option" where
  "returned r = (case r of Inl e \<Rightarrow> Inl e | Inr b \<Rightarrow> Inr (Some b))"

text \<open>\<open>OBDServiceHandler.process\<close>: the response (\<open>None\<close> for no response) and the
  handler afterwards.\<close>

definition OBD_process ::
  "OBDServiceHandler \<Rightarrow> byte list \<Rightarrow> (error + byte list option) \<times> OBDServiceHandler" where
  "OBD_process h request =
     (if length request < 2 then (Inr None, h)
      else
        let mode = unat (request ! 0)
        in if mode = 0x01 then (returned (mode_01_current_data h request), h)
           else if mode = 0x02 then (returned (mode_02_freeze_frame h request), h)
           else if mode = 0x03 then (returned (mode_03_read_dtcs h request), h)
           else if mode = 0x04 then
             (case mode_04_clear_dtcs h request of (r, h') \<Rightarrow> (returned r, h'))
           else if mode = 0x06 then (returned (mode_06_test_results h request), h)
           else if mode = 0x07 then (returned (mode_07_pending_dtcs h request), h)
           else if mode = 0x08 then (returned (mode_08_control_systems h request), h)
           else if mode = 0x09 then (returned (mode_09_vehicle_info h request), h)
           else if mode = 0x0A then (returned (mode_0A_permanent_dtcs h request), h)
           else (returned (bytes_of [0x7F, int mode, 0x11]), h))"

text \<open>The objects \<open>__init__\<close> builds when the configuration gives no value of its own.\<close>

definition default_DriveCycle :: DriveCycle where
  "default_DriveCycle =
     \<lparr>misfire_monitor_complete = False, fuel_system_monitor_complete = False,
      component_monitor_complete = False, catalyst_monitor_complete = False,
      heated_catalyst_monitor_complete = False, evap_system_monitor_complete = False,
      secondary_air_monitor_complete = False, oxygen_sensor_monitor_complete = False,
      oxygen_sensor_heater_complete = False, egr_system_monitor_complete = False,
      idle_time = 0, cruise_time = 0, accel_count = 0, decel_count = 0, cold_start_count = 0\<rparr>"

definition new_VehicleSimulator :: VehicleSimulator where
  "new_VehicleSimulator = \<lparr>sensors = default_SensorData, drive_cycle = default_DriveCycle\<rparr>"

definition new_OBDServiceHandler :: OBDServiceHandler where
  "new_OBDServiceHandler =
     \<lparr>vehicle = new_VehicleSimulator, dtc_manager = new_DTCManager,
      vin = ''1HGBH41JXMN109186'', calibration_id = ''CALIB12345678'',
      ecu_name = ''ENGINE-ECU''\<rparr>"

section \<open>UDS service handler (lib/uds_services.py)\<close>

datatype DiagnosticSession = DEFAULT | PROGRAMMING | EXTENDED | SAFETY_SYSTEM

fun DiagnosticSession_value :: "DiagnosticSession \<Rightarrow> nat" where
  "DiagnosticSession_value DEFAULT = 0x01"
| "DiagnosticSession_value PROGRAMMING = 0x02"
| "DiagnosticSession_value EXTENDED = 0x03"
| "DiagnosticSession_value SAFETY_SYSTEM = 0x04"

text \<open>\<open>DiagnosticSession(v)\<close> and \<open>SecurityLevel(v)\<close>: the member with that value, or
  ValueError.\<close>

definition DiagnosticSession_of :: "nat \<Rightarrow> error + DiagnosticSession" where
  "DiagnosticSession_of v =
     (if v = 0x01 then Inr DEFAULT else if v = 0x02 then Inr PROGRAMMING
      else if v = 0x03 then Inr EXTENDED else if v = 0x04 then Inr SAFETY_SYSTEM
      else Inl ValueError)"

datatype SecurityLevel = LOCKED | LEVEL_1 | LEVEL_2

fun SecurityLevel_value :: "SecurityLevel \<Rightarrow> nat" where
  "SecurityLevel_value LOCKED = 0x00"
| "SecurityLevel_value LEVEL_1 = 0x01"
| "SecurityLevel_value LEVEL_2 = 0x02"

definition SecurityLevel_of :: "nat \<Rightarrow> error + SecurityLevel" where
  "SecurityLevel_of v =
     (if v = 0x00 then Inr LOCKED else if v = 0x01 then Inr LEVEL_1
      else if v = 0x02 then Inr LEVEL_2 else Inl ValueError)"

text \<open>The dictionaries of the handler are only read and written by key, never iterated,
  so they are maps.\<close>

record UDSServiceHandler = ServiceHandler +
  current_session :: DiagnosticSession
  security_level :: SecurityLevel
  session_start_time :: real
  session_timeout :: real
  current_seed :: "int option"
  security_attempts :: int
  max_security_attempts :: int
  io_controls :: "nat \<rightharpoonup> bool"
  active_routines :: "nat \<rightharpoonup> string"
  dids :: "nat \<rightharpoonup> byte list"

text \<open>A bytes literal of ASCII characters, \<open>b'...'\<close>.\<close>

definition ascii :: "string \<Rightarrow> byte list" where
  "ascii s = map (\<lambda>c. of_nat (of_char c)) s"

text \<open>\<open>_initialize_dids\<close> for a configuration without a \<open>vin\<close> entry.\<close>

definition initialize_dids :: "nat \<rightharpoonup> byte list" where
  "initialize_dids =
     map_of
       [(0xF187, ascii ''12345678''),
        (0xF18A, ascii ''SUPPLIER''),
        (0xF18B, ascii ''20250101''),
        (0xF18C, ascii ''SN123456789012''),
        (0xF18E, ascii ''v2.0.0''),
        (0xF190, fit_bytes 17 (ascii ''1HGBH41JXMN109186'')),
        (0xF191, ascii ''HW1.0''),
        (0xF19E, ascii ''ENGINE-ECU''),
        (0x0100, [0x00, 0x01]),
        (0x0101, [0x00, 0x02])]"

definition new_UDSServiceHandler :: UDSServiceHandler where
  "new_UDSServiceHandler =
     \<lparr>vehicle = new_VehicleSimulator, dtc_manager = new_DTCManager,
      current_session = DEFAULT, security_level = LOCKED, session_start_time = 0,
      session_timeout = 5, current_seed = None, security_attempts = 0,
      max_security_attempts = 3, io_controls = Map.empty, active_routines = Map.empty,
      dids = initialize_dids\<rparr>"

text \<open>
  A handler returns its response (\<open>None\<close> when it returns no bytes) and the handler state
  afterwards. In every response built with \<open>bytes([...])\<close> the elements are bytes of the
  request, constants below 256 or values masked with \<open>0xFF\<close>, so that conversion cannot
  raise and the response is written as a list of bytes.
\<close>

type_synonym UDS_result = "(error + byte list option) \<times> UDSServiceHandler"

definition respond :: "byte list \<Rightarrow> UDSServiceHandler \<Rightarrow> UDS_result" where
  "respond b h = (Inr (Some b), h)"

definition negative_response :: "nat \<Rightarrow> nat \<Rightarrow> byte list" where
  "negative_response service nrc = [0x7F, of_nat service, of_nat nrc]"

text \<open>\<open>(request[i] << 8) | request[i+1]\<close>.\<close>

definition word16 :: "byte \<Rightarrow> byte \<Rightarrow> nat" where
  "word16 hi lo = push_bit 8 (unat hi) OR unat lo"

definition service_10_diagnostic_session ::
  "UDSServiceHandler \<Rightarrow> real \<Rightarrow> byte list \<Rightarrow> UDS_result" where
  "service_10_diagnostic_session h now request =
     (if length request < 2 then respond (negative_response 0x10 0x13) h
      else
        let session_type = unat (request ! 1)
        in if session_type \<notin> {0x01, 0x02, 0x03, 0x04} then
             respond (negative_response 0x10 0x12) h
           else
             case DiagnosticSession_of session_type of
               Inl e \<Rightarrow> (Inl e, h)
             | Inr session \<Rightarrow>
                 (let h1 = h\<lparr>current_session := session, session_start_time := now\<rparr>;
                      h2 = (if session_type \<noteq> DiagnosticSession_value EXTENDED
                            then h1\<lparr>security_level := LOCKED\<rparr> else h1)
                  in respond [0x50, request ! 1, 0x00, 0x32, 0x01, 0xF4] h2))"

definition service_11_ecu_reset :: "UDSServiceHandler \<Rightarrow> byte list \<Rightarrow> UDS_result" where
  "service_11_ecu_reset h request =
     (if length request < 2 then respond (negative_response 0x11 0x13) h
      else
        let reset_type = unat (request ! 1)
        in if reset_type \<notin> {0x01, 0x02, 0x03} then respond (negative_response 0x11 0x12) h
           else respond [0x51, request ! 1] h)"

definition service_14_clear_dtc :: "UDSServiceHandler \<Rightarrow> byte list \<Rightarrow> UDS_result" where
  "service_14_clear_dtc h request =
     (if length request < 4 then respond (negative_response 0x14 0x13) h
      else
        let dtc_group = push_bit 16 (unat (request ! 1)) OR push_bit 8 (unat (request ! 2))
                          OR unat (request ! 3);
            h1 = (if dtc_group = 0xFFFFFF
                  then h\<lparr>dtc_manager := snd (clear_dtcs (dtc_manager h) False)\<rparr> else h)
        in respond [0x54] h1)"

text \<open>The loop of sub-function 0x02 of service 0x19: each active code's two bytes and the
  status byte 0x08.\<close>

fun extend_with_status :: "byte list \<Rightarrow> DiagnosticTroubleCode list \<Rightarrow> error + byte list" where
  "extend_with_status response [] = Inr response"
| "extend_with_status response (dtc # rest) =
     bind_result (to_bytes dtc) (\<lambda>b. extend_with_status (response @ b @ [0x08]) rest)"

text \<open>The loop of sub-function 0x0A, which repeats the conversion inline without the
  length check of \<open>to_bytes\<close>: an index beyond the string raises IndexError.\<close>

definition char_at :: "string \<Rightarrow> nat \<Rightarrow> error + char" where
  "char_at s i = (if i < length s then Inr (s ! i) else Inl IndexError)"

definition digit_at :: "string \<Rightarrow> nat \<Rightarrow> error + int" where
  "digit_at s i = bind_result (char_at s i) int_of_digit"

fun extend_supported :: "byte list \<Rightarrow> string list \<Rightarrow> error + byte list" where
  "extend_supported response [] = Inr response"
| "extend_supported response (c # rest) =
     bind_result (char_at c 0) (\<lambda>c0.
       (let code_type = type_map_get c0; digits = drop 1 c
        in bind_result (digit_at digits 0) (\<lambda>g0.
           bind_result (digit_at digits 1) (\<lambda>g1.
             (let byte1 = push_bit 6 code_type OR push_bit 4 g0 OR g1
              in bind_result (digit_at digits 2) (\<lambda>g2.
                 bind_result (digit_at digits 3) (\<lambda>g3.
                   (let byte2 = push_bit 4 g2 OR g3
                    in bind_result (bytes_of [byte1, byte2, 0x00]) (\<lambda>b.
                         extend_supported (response @ b) rest)))))))))"

definition service_19_read_dtc_info :: "UDSServiceHandler \<Rightarrow> byte list \<Rightarrow> UDS_result" where
  "service_19_read_dtc_info h request =
     (if length request < 2 then respond (negative_response 0x19 0x13) h
      else
        let sub_function = unat (request ! 1)
        in if sub_function = 0x01 then
             (let dtc_count = get_dtc_count (dtc_manager h)
              in respond [0x59, 0x01, 0xFF, 0x00, of_nat (drop_bit 8 dtc_count AND 0xFF),
                          of_nat (dtc_count AND 0xFF)] h)
           else if sub_function = 0x02 then
             (if length request < 3 then respond (negative_response 0x19 0x13) h
              else
                (returned (extend_with_status [0x59, 0x02, request ! 2]
                             (get_all_active_dtcs (dtc_manager h))), h))
           else if sub_function = 0x0A then
             (returned (extend_supported [0x59, 0x0A] (take 10 (map fst DTC_DEFINITIONS))), h)
           else respond (negative_response 0x19 0x12) h)"

definition service_22_read_data_by_id :: "UDSServiceHandler \<Rightarrow> byte list \<Rightarrow> UDS_result" where
  "service_22_read_data_by_id h request =
     (if length request < 3 then respond (negative_response 0x22 0x13) h
      else
        let did = word16 (request ! 1) (request ! 2)
        in case dids h did of
             None \<Rightarrow> respond (negative_response 0x22 0x31) h
           | Some dat \<Rightarrow> respond ([0x62, request ! 1, request ! 2] @ dat) h)"

text \<open>\<open>v.to_bytes(4, 'big')\<close> (OverflowError when \<open>v\<close> does not fit) and
  \<open>int.from_bytes(b, 'big')\<close>.\<close>

definition to_bytes_4 :: "int \<Rightarrow> error + byte list" where
  "to_bytes_4 v =
     (if 0 \<le> v \<and> v < 2 ^ 32 then
        Inr [word_of_int (drop_bit 24 v), word_of_int (drop_bit 16 v),
             word_of_int (drop_bit 8 v), word_of_int v]
      else Inl OverflowError)"

definition int_from_bytes :: "byte list \<Rightarrow> int" where
  "int_from_bytes b = foldl (\<lambda>acc x. acc * 256 + uint x) 0 b"

text \<open>Service 0x27. \<open>rnd\<close> is the value \<open>random.randint(0x10000000, 0xFFFFFFFF)\<close> returns
  when the handler draws a seed.\<close>

definition service_27_security_access ::
  "UDSServiceHandler \<Rightarrow> int \<Rightarrow> byte list \<Rightarrow> UDS_result" where
  "service_27_security_access h rnd request =
     (if length request < 2 then respond (negative_response 0x27 0x13) h
      else
        let sub_function = unat (request ! 1)
        in if sub_function mod 2 = 1 then
             (let level = (sub_function + 1) div 2
              in if SecurityLevel_value (security_level h) \<ge> level then
                   respond [0x67, request ! 1, 0x00, 0x00, 0x00, 0x00] h
                 else if security_attempts h \<ge> max_security_attempts h then
                   respond (negative_response 0x27 0x36) h
                 else
                   (let h1 = h\<lparr>current_seed := Some rnd\<rparr>
                    in case to_bytes_4 rnd of
                         Inl e \<Rightarrow> (Inl e, h1)
                       | Inr seed_bytes \<Rightarrow> respond ([0x67, request ! 1] @ seed_bytes) h1))
           else if sub_function mod 2 = 0 then
             (if length request < 6 then respond (negative_response 0x27 0x13) h
              else
                let level = sub_function div 2;
                    provided_key = int_from_bytes (take 4 (drop 2 request))
                in case current_seed h of
                     None \<Rightarrow> respond (negative_response 0x27 0x24) h
                   | Some seed \<Rightarrow>
                       (let expected_key = seed XOR 0x12345678
                        in if provided_key = expected_key then
                             (case SecurityLevel_of level of
                                Inl e \<Rightarrow> (Inl e, h)
                              | Inr lvl \<Rightarrow>
                                  respond [0x67, request ! 1]
                                    (h\<lparr>security_level := lvl, security_attempts := 0,
                                       current_seed := None\<rparr>))
                           else
                             respond (negative_response 0x27 0x35)
                               (h\<lparr>security_attempts := security_attempts h + 1,
                                  current_seed := None\<rparr>)))
           else respond (negative_response 0x27 0x12) h)"

definition service_28_communication_control :: "UDSServiceHandler \<Rightarrow> byte list \<Rightarrow> UDS_result" where
  "service_28_communication_control h request =
     (if length request < 3 then respond (negative_response 0x28 0x13) h
      else respond [0x68, request ! 1] h)"

definition service_2E_write_data_by_id :: "UDSServiceHandler \<Rightarrow> byte list \<Rightarrow> UDS_result" where
  "service_2E_write_data_by_id h request =
     (if length request < 4 then respond (negative_response 0x2E 0x13) h
      else if security_level h = LOCKED then respond (negative_response 0x2E 0x33) h
      else
        let did = word16 (request ! 1) (request ! 2);
            dat = drop 3 request
        in if dids h did = None then respond (negative_response 0x2E 0x31) h
           else respond [0x6E, request ! 1, request ! 2] (h\<lparr>dids := (dids h)(did \<mapsto> dat)\<rparr>))"

definition service_2F_io_control :: "UDSServiceHandler \<Rightarrow> byte list \<Rightarrow> UDS_result" where
  "service_2F_io_control h request =
     (if length request < 4 then respond (negative_response 0x2F 0x13) h
      else if current_session h \<noteq> EXTENDED then respond (negative_response 0x2F 0x7F) h
      else
        let did = word16 (request ! 1) (request ! 2);
            control_param = unat (request ! 3);
            h1 = (if control_param = 0x00 then h\<lparr>io_controls := (io_controls h)(did := None)\<rparr>
                  else
                    let control_state = (if length request > 4 then unat (request ! 4) else 0)
                    in h\<lparr>io_controls := (io_controls h)(did \<mapsto> control_state \<noteq> 0)\<rparr>)
        in respond [0x6F, request ! 1, request ! 2, request ! 3] h1)"

definition service_31_routine_control :: "UDSServiceHandler \<Rightarrow> byte list \<Rightarrow> UDS_result" where
  "service_31_routine_control h request =
     (if length request < 4 then respond (negative_response 0x31 0x13) h
      else
        let sub_function = unat (request ! 1);
            routine_id = word16 (request ! 2) (request ! 3)
        in if sub_function = 0x01 then
             (if current_session h = DEFAULT then respond (negative_response 0x31 0x7F) h
              else respond [0x71, 0x01, request ! 2, request ! 3, 0x00]
                     (h\<lparr>active_routines := (active_routines h)(routine_id \<mapsto> ''running'')\<rparr>))
           else if sub_function = 0x02 then
             respond [0x71, 0x02, request ! 2, request ! 3, 0x00]
               (if active_routines h routine_id \<noteq> None
                then h\<lparr>active_routines := (active_routines h)(routine_id \<mapsto> ''stopped'')\<rparr>
                else h)
           else if sub_function = 0x03 then
             (let status = (if active_routines h routine_id \<noteq> None then 0x00 else 0x01)
              in respond [0x71, 0x03, request ! 2, request ! 3, status] h)
           else respond (negative_response 0x31 0x12) h)"

definition service_34_request_download :: "UDSServiceHandler \<Rightarrow> byte list \<Rightarrow> UDS_result" where
  "service_34_request_download h request =
     (if current_session h \<noteq> PROGRAMMING then respond (negative_response 0x34 0x7F) h
      else if security_level h = LOCKED then respond (negative_response 0x34 0x33) h
      else respond [0x74, 0x20, 0x10, 0x00] h)"

definition service_36_transfer_data :: "UDSServiceHandler \<Rightarrow> byte list \<Rightarrow> UDS_result" where
  "service_36_transfer_data h request =
     (if length request < 2 then respond (negative_response 0x36 0x13) h
      else respond [0x76, request ! 1] h)"

definition service_37_transfer_exit :: "UDSServiceHandler \<Rightarrow> byte list \<Rightarrow> UDS_result" where
  "service_37_transfer_exit h request = respond [0x77] h"

definition service_3E_tester_present ::
  "UDSServiceHandler \<Rightarrow> real \<Rightarrow> byte list \<Rightarrow> UDS_result" where
  "service_3E_tester_present h now request =
     (if length request < 2 then respond (negative_response 0x3E 0x13) h
      else
        let sub_function = unat (request ! 1);
            h1 = h\<lparr>session_start_time := now\<rparr>
        in if sub_function = 0x00 then respond [0x7E, 0x00] h1
           else (Inr None, h1))"

definition service_85_control_dtc_setting :: "UDSServiceHandler \<Rightarrow> byte list \<Rightarrow> UDS_result" where
  "service_85_control_dtc_setting h request =
     (if length request < 2 then respond (negative_response 0x85 0x13) h
      else if current_session h \<noteq> EXTENDED then respond (negative_response 0x85 0x7F) h
      else respond [0xC5, request ! 1] h)"

text \<open>The session-timeout check at the head of \<open>process\<close>.\<close>

definition check_session_timeout :: "UDSServiceHandler \<Rightarrow> real \<Rightarrow> nat \<Rightarrow> UDSServiceHandler" where
  "check_session_timeout h now service =
     (if service \<noteq> 0x3E \<and> current_session h \<noteq> DEFAULT \<and>
         now - session_start_time h > session_timeout h
      then h\<lparr>current_session := DEFAULT, security_level := LOCKED\<rparr>
      else h)"



section \<open>Properties of the frame codec\<close>

subsection \<open>Bit-level facts about PCI bytes\<close>

lemma and_15_nat: "n AND (15::nat) = n mod 16"
proof -
  have "n AND mask 4 = take_bit 4 n" by (simp only: take_bit_eq_mask)
  also have "\<dots> = n mod 2 ^ 4" by (simp only: take_bit_eq_mod)
  finally show ?thesis by (simp add: mask_eq_exp_minus_1)
qed

lemma and_255_nat: "n AND (255::nat) = n mod 256"
proof -
  have "n AND mask 8 = take_bit 8 n" by (simp only: take_bit_eq_mask)
  also have "\<dots> = n mod 2 ^ 8" by (simp only: take_bit_eq_mod)
  finally show ?thesis by (simp add: mask_eq_exp_minus_1)
qed

lemma and_240_nat: "n AND (240::nat) = 16 * ((n div 16) mod 16)"
proof -
  have e: "push_bit 4 (mask 4) = (240::nat)"
    by (simp add: mask_eq_exp_minus_1 push_bit_eq_mult)
  have "n AND push_bit 4 (mask 4) = push_bit 4 (take_bit 4 (drop_bit 4 n))"
    apply (rule bit_eqI)
    apply (simp only: bit_simps)
    apply auto
    done
  then show ?thesis
    unfolding e by (simp add: push_bit_eq_mult take_bit_eq_mod drop_bit_eq_div)
qed

lemma or_high_nibble: "a < 16 \<Longrightarrow> (16 * k) OR a = 16 * k + (a::nat)"
proof -
  assume a: "a < 16"
  have "16 * k = push_bit 4 k" by (simp add: push_bit_eq_mult)
  moreover have "a = take_bit 4 a" using a by (simp add: take_bit_nat_eq_self)
  moreover have "push_bit 4 k AND take_bit 4 a = 0"
    by (simp add: bit_eq_iff bit_simps)
  ultimately show ?thesis by (metis disjunctive_add_eq_or)
qed

lemma len12_recombine: "push_bit 8 (drop_bit 8 n) OR (n mod 256) = (n::nat)"
proof -
  have "push_bit 8 (drop_bit 8 n) AND take_bit 8 n = 0"
    by (simp add: bit_eq_iff bit_simps)
  then have "push_bit 8 (drop_bit 8 n) OR take_bit 8 n = push_bit 8 (drop_bit 8 n) + take_bit 8 n"
    by (simp add: disjunctive_add_eq_or)
  then show ?thesis by (simp add: bits_ident) (simp add: take_bit_eq_mod)
qed

lemma unat_byte: "n < 256 \<Longrightarrow> unat (of_nat n :: 8 word) = n"
  by (simp add: unat_of_nat)


lemma pci_hi:
  fixes k a :: nat
  assumes "k < 16" and "a < 16"
  shows "unat (of_nat (16 * k OR a) :: byte) = 16 * k + a"
proof -
  have e: "16 * k OR a = 16 * k + a" using assms(2) by (rule or_high_nibble)
  have "16 * k + a < 256" using assms by arith
  then have "unat (of_nat (16 * k + a) :: byte) = 16 * k + a" by (rule unat_byte)
  then show ?thesis by (simp only: e)
qed

lemma pci_ff:
  assumes "L \<le> 4095"
  shows "unat (of_nat (0x10 OR (drop_bit 8 L AND 0x0F)) :: byte) AND 0xF0 = (0x10::nat)"
    and "push_bit 8 (unat (of_nat (0x10 OR (drop_bit 8 L AND 0x0F)) :: byte) AND 0x0F)
           OR unat (of_nat (L AND 0xFF) :: byte) = L"
proof -
  let ?a = "drop_bit 8 L AND (0x0F::nat)"
  have a: "?a < 16" by (simp add: and_15_nat)
  have d: "drop_bit 8 L < 16" using assms by (simp add: drop_bit_eq_div)
  have a': "?a = drop_bit 8 L" using d by (simp add: and_15_nat)
  have h: "unat (of_nat (0x10 OR ?a) :: byte) = 16 + ?a"
    using pci_hi [of 1 ?a] a by simp
  show "unat (of_nat (0x10 OR ?a) :: byte) AND 0xF0 = (0x10::nat)"
    unfolding h using a by (simp add: and_240_nat)
  have l: "unat (of_nat (L AND 0xFF) :: byte) = L mod 256"
    by (simp add: and_255_nat unat_byte)
  have "(16 + ?a) AND 0x0F = drop_bit 8 L"
    using d by (simp add: and_15_nat a')
  then show "push_bit 8 (unat (of_nat (0x10 OR ?a) :: byte) AND 0x0F)
           OR unat (of_nat (L AND 0xFF) :: byte) = L"
    unfolding h l by (simp add: len12_recombine)
qed



subsection \<open>Parsing failures\<close>




section \<open>Properties of the segmentation engine\<close>





lemma first_frame_received:
  assumes len: "8 \<le> length p" "length p \<le> 4095" and pad: "padding (config s)"
    and ids: "rx_id r = tx_id s"
  shows "\<exists>ff. create_first_frame (length p) (take 6 p) (padding (config s)) = Inr ff \<and>
           length ff = 8 \<and>
           receive_frame r now \<lparr>arbitration_id = tx_id s, data = ff\<rparr> =
             (None,
              r\<lparr>expected_length := length p, received_data := take 6 p, next_seq_num := 1,
                receiving := True, last_frame_time := now\<rparr>,
              [\<lparr>arbitration_id = tx_id r,
                data = create_flow_control CONTINUE_TO_SEND (block_size (config r))
                         (stmin (config r)) (padding (config r))\<rparr>])"
proof -
  let ?h = "of_nat (0x10 OR (drop_bit 8 (length p) AND 0x0F)) :: byte"
  let ?l = "of_nat (length p AND 0xFF) :: byte"
  let ?ff = "?h # ?l # take 6 p"
  have lenff: "length ?ff = 8" using len by simp
  have c: "create_first_frame (length p) (take 6 p) (padding (config s)) = Inr ?ff"
    using len pad by (simp add: create_first_frame_def pad_frame_def)
  have pr: "parse ?ff = Inr (FIRST_FRAME, take 6 p)"
    using pci_ff(1) [OF len(2)] by (simp add: parse_def)
  have el: "push_bit 8 (unat ?h AND 0x0F) OR unat ?l = length p"
    using pci_ff(2) [OF len(2)] by simp
  have "receive_frame r now \<lparr>arbitration_id = tx_id s, data = ?ff\<rparr> =
             (None,
              r\<lparr>expected_length := length p, received_data := take 6 p, next_seq_num := 1,
                receiving := True, last_frame_time := now\<rparr>,
              [\<lparr>arbitration_id = tx_id r,
                data = create_flow_control CONTINUE_TO_SEND (block_size (config r))
                         (stmin (config r)) (padding (config r))\<rparr>])"
    using ids el by (simp add: receive_frame_def pr handle_first_frame_def send_flow_control_def)
  with c lenff show ?thesis by blast
qed






text \<open>
  The sender does not understand a receiver with another block size. \<open>parse\<close> returns
  only the block size and the separation time of a Flow-Control frame, and
  \<open>_wait_for_flow_control\<close> reads the first of them as the flow status: a block size of 1
  reads as Wait, any other non-zero value as Overflow, and the sender gives up after the
  First frame.
\<close>

lemma fc_status_nonzero:
  assumes "(bs::int) AND 0xFF \<noteq> 0"
  shows "unat (word_of_int (bs AND 0xFF) :: byte) \<noteq> 0"
proof -
  have "bs AND mask 8 = take_bit 8 bs" by (simp only: take_bit_eq_mask)
  then have e: "bs AND 0xFF = take_bit 8 bs" by (simp add: mask_eq_exp_minus_1)
  with assms have ne: "take_bit 8 bs \<noteq> 0" by simp
  have "take_bit 8 (take_bit 8 bs) = 0 \<longleftrightarrow> 2 ^ 8 dvd take_bit 8 bs"
    by (rule take_bit_eq_0_iff)
  with ne have "\<not> 2 ^ 8 dvd take_bit 8 bs" by simp
  then have "(word_of_int (take_bit 8 bs) :: byte) \<noteq> 0"
    by (simp add: word_of_int_eq_0_iff)
  then show ?thesis unfolding e by (simp add: unsigned_eq_0_iff)
qed

lemma flow_control_misread:
  assumes bs: "bs AND 0xFF \<noteq> 0" and ids: "rx_id s = rid"
  shows "\<not> wait_for_flow_control s
           [Some \<lparr>arbitration_id = rid, data = create_flow_control CONTINUE_TO_SEND bs st pad\<rparr>]"
proof -
  have "parse (create_flow_control CONTINUE_TO_SEND bs st pad) =
          Inr (FLOW_CONTROL, [word_of_int (bs AND 0xFF), word_of_int (st AND 0xFF)])"
    by (cases pad) (simp_all add: create_flow_control_def pad_frame_def parse_def Let_def)
  then show ?thesis using fc_status_nonzero [OF bs] ids by simp
qed

lemma send_aborts_on_nonzero_block_size:
  assumes len: "8 \<le> length payload" "length payload \<le> 4095"
    and pad: "padding (config s)"
    and ids: "rx_id r = tx_id s" "rx_id s = tx_id r"
    and bs: "block_size (config r) AND 0xFF \<noteq> 0"
  shows "\<exists>ff. send s (paired_polls s r now payload) payload =
                (False, [\<lparr>arbitration_id = tx_id s, data = ff\<rparr>])"
proof -
  let ?fc = "\<lparr>arbitration_id = tx_id r,
              data = create_flow_control CONTINUE_TO_SEND (block_size (config r))
                       (stmin (config r)) (padding (config r))\<rparr>"
  obtain ff r1 where ff:
    "create_first_frame (length payload) (take 6 payload) (padding (config s)) = Inr ff"
    "receive_frame r now \<lparr>arbitration_id = tx_id s, data = ff\<rparr> = (None, r1, [?fc])"
    using first_frame_received [OF len pad ids(1)] by blast
  have polls: "paired_polls s r now payload = [Some ?fc]"
    by (simp add: paired_polls_def ff)
  have "\<not> wait_for_flow_control s [Some ?fc]"
    using flow_control_misread [OF bs ids(2)] .
  then have "send s (paired_polls s r now payload) payload =
               (False, [\<lparr>arbitration_id = tx_id s, data = ff\<rparr>])"
    unfolding polls using len by (simp add: send_def send_multi_frame_def ff Let_def)
  then show ?thesis by blast
qed


section \<open>Properties of the fault registry\<close>

subsection \<open>Byte encoding\<close>

text \<open>
  Claim C2. The encoding of a trouble code with a hexadecimal digit among its last four
  characters: \<open>to_bytes\<close> converts every digit with \<open>int(...)\<close>, which raises ValueError
  on \<open>A\<close> to \<open>F\<close>. For \<open>P0A0F\<close> the two bytes the claim describes are \<open>0A 0F\<close>, which the
  test client decodes to \<open>P0A0F\<close>, but \<open>to_bytes\<close> produces no bytes at all.
\<close>

theorem to_bytes_raises_on_hex_digit:
  "to_bytes \<lparr>code = ''P0A0F'', description = ''Hybrid Battery'', state = CONFIRMED,
             detection_count = 2, first_detected = 0, last_detected = 0, freeze_frame = None,
             mil_illuminate = True, is_emission_related = False\<rparr> = Inl ValueError \<and>
   decode_dtc 0x0A 0x0F = ''P0A0F''"
  by (simp add: to_bytes_def code_to_bytes_def type_map_get_def int_of_digit_def bytes_of_def
      bind_result_def decode_dtc_def hex_digit_def)

subsection \<open>MIL\<close>

lemma mil_correct_update_mil: "mil_correct (update_mil m)"
  by (auto simp: mil_correct_def update_mil_def list_ex_iff)

lemma mil_correct_inject: "mil_correct m \<Longrightarrow> mil_correct (snd (inject_dtc m c sens cap now))"
  by (simp add: inject_dtc_def mil_correct_update_mil Let_def split: option.splits prod.splits)

lemma mil_correct_clear: "mil_correct (snd (clear_dtcs m cp))"
  by (simp add: clear_dtcs_def mil_correct_update_mil split: prod.splits)

lemma mil_correct_drive_cycle: "mil_correct (drive_cycle_complete m now)"
  by (simp add: drive_cycle_complete_def mil_correct_update_mil Let_def)

lemma mil_correct_apply: "mil_correct m \<Longrightarrow> mil_correct (apply_operation m op)"
  by (cases op) (simp_all add: mil_correct_inject mil_correct_clear mil_correct_drive_cycle)

lemma mil_correct_foldl: "mil_correct m \<Longrightarrow> mil_correct (foldl apply_operation m ops)"
  by (induction ops arbitrary: m) (simp_all add: mil_correct_apply)

text \<open>
  Claim C3. After every operation of a \<open>DTCManager\<close> (\<open>inject_dtc\<close>, \<open>clear_dtcs\<close>,
  \<open>drive_cycle_complete\<close>), in any sequence from a new manager, \<open>mil_on\<close> is true if and
  only if some stored code in state CONFIRMED or PERMANENT has \<open>mil_illuminate\<close>.
\<close>

theorem mil_correct_after_every_operation:
  "mil_correct (foldl apply_operation new_DTCManager ops)"
  by (rule mil_correct_foldl) (simp add: mil_correct_def new_DTCManager_def)

theorem mil_correct_after_every_operation_witness:
  "mil_correct (foldl apply_operation new_DTCManager
     [Inject ''P0420'' default_SensorData True 0, Inject ''P0420'' default_SensorData True 1]) \<and>
   mil_on (foldl apply_operation new_DTCManager
     [Inject ''P0420'' default_SensorData True 0, Inject ''P0420'' default_SensorData True 1])"
proof -
  have "mil_on (foldl apply_operation new_DTCManager
     [Inject ''P0420'' default_SensorData True 0, Inject ''P0420'' default_SensorData True 1])"
    by (simp add: inject_dtc_def new_DTCManager_def DTC_DEFINITIONS_def lookup_dtc_def
        update_mil_def redetect_def Let_def)
  then show ?thesis
    using mil_correct_after_every_operation
      [of "[Inject ''P0420'' default_SensorData True 0, Inject ''P0420'' default_SensorData True 1]"]
    by simp
qed

subsection \<open>Lifecycle\<close>

lemma lookup_dtc_append_new:
  "lookup_dtc ds c = None \<Longrightarrow> code d = c \<Longrightarrow> lookup_dtc (ds @ [d]) c = Some d"
  by (induction ds) (auto simp: lookup_dtc_def)

lemma lookup_dtc_None_iff: "lookup_dtc ds c = None \<longleftrightarrow> (\<forall>d \<in> set ds. code d \<noteq> c)"
  by (induction ds) (auto simp: lookup_dtc_def)

lemma code_redetect [simp]: "code (redetect th now d) = code d"
  by (simp add: redetect_def Let_def)

lemma lookup_dtc_map_redetect:
  "lookup_dtc ds c = Some d \<Longrightarrow>
   lookup_dtc (map (\<lambda>x. if code x = c then redetect th now x else x) ds) c =
     Some (redetect th now d)"
  by (induction ds) (auto simp: lookup_dtc_def split: if_splits)

lemma dtcs_update_mil [simp]: "dtcs (update_mil m) = dtcs m"
  by (simp add: update_mil_def)

text \<open>
  Claim C4. With threshold 2, injecting a cataloged code that is not stored yet leaves it
  PENDING; injecting it a second time leaves it CONFIRMED, or PERMANENT when the catalog
  marks it emission-related.
\<close>

theorem inject_twice_lifecycle:
  assumes cat: "map_of DTC_DEFINITIONS c = Some (descr, mil, emission)"
    and th: "pending_to_confirmed_threshold m = 2"
    and new: "lookup_dtc (dtcs m) c = None"
  shows "map_option state (lookup_dtc (dtcs (snd (inject_dtc m c sens1 cap1 t1))) c) = Some PENDING \<and>
         map_option state
           (lookup_dtc (dtcs (snd (inject_dtc (snd (inject_dtc m c sens1 cap1 t1)) c sens2 cap2 t2))) c) =
           Some (if emission then PERMANENT else CONFIRMED)"
proof -
  define d where "d = \<lparr>code = c, description = descr, state = PENDING,
                        detection_count = 1, first_detected = t1, last_detected = t1,
                        freeze_frame = (if cap1 then Some (capture sens1 t1) else None),
                        mil_illuminate = mil, is_emission_related = emission\<rparr>"
  define m1 where "m1 = snd (inject_dtc m c sens1 cap1 t1)"
  have d1: "dtcs m1 = dtcs m @ [d]"
    by (simp add: m1_def inject_dtc_def cat new Let_def d_def)
  have th1: "pending_to_confirmed_threshold m1 = 2"
    by (simp add: m1_def inject_dtc_def cat new Let_def th update_mil_def)
  have l1: "lookup_dtc (dtcs m1) c = Some d"
    unfolding d1 by (rule lookup_dtc_append_new [OF new]) (simp add: d_def)
  have "lookup_dtc (dtcs (snd (inject_dtc m1 c sens2 cap2 t2))) c = Some (redetect 2 t2 d)"
    by (simp add: inject_dtc_def cat l1 Let_def th1 lookup_dtc_map_redetect)
  moreover have "state (redetect 2 t2 d) = (if emission then PERMANENT else CONFIRMED)"
    by (simp add: redetect_def d_def Let_def)
  moreover have "state d = PENDING" by (simp add: d_def)
  ultimately show ?thesis using l1 unfolding m1_def by simp
qed

theorem inject_twice_lifecycle_witness:
  "map_of DTC_DEFINITIONS ''P0420'' =
     Some (''Catalyst System Efficiency Below Threshold (Bank 1)'', True, True) \<and>
   pending_to_confirmed_threshold new_DTCManager = 2 \<and>
   lookup_dtc (dtcs new_DTCManager) ''P0420'' = None \<and>
   map_option state (lookup_dtc (dtcs (snd (inject_dtc new_DTCManager ''P0420'' default_SensorData True 10))) ''P0420'') = Some PENDING \<and>
   map_option state
     (lookup_dtc (dtcs (snd (inject_dtc (snd (inject_dtc new_DTCManager ''P0420'' default_SensorData True 10))
        ''P0420'' default_SensorData True 20))) ''P0420'') = Some PERMANENT"
proof -
  have a: "map_of DTC_DEFINITIONS ''P0420'' =
     Some (''Catalyst System Efficiency Below Threshold (Bank 1)'', True, True)"
    by (simp add: DTC_DEFINITIONS_def)
  have b: "pending_to_confirmed_threshold new_DTCManager = 2" by (simp add: new_DTCManager_def)
  have c: "lookup_dtc (dtcs new_DTCManager) ''P0420'' = None"
    by (simp add: new_DTCManager_def lookup_dtc_def)
  show ?thesis
    using inject_twice_lifecycle [OF a b c, of default_SensorData True 10 default_SensorData True 20]
      a b c by simp
qed

section \<open>Properties of the OBD dispatcher\<close>

lemma mode_03_no_dtcs:
  "get_confirmed_dtcs (dtc_manager h) = [] \<Longrightarrow> get_permanent_dtcs (dtc_manager h) = [] \<Longrightarrow>
   mode_03_read_dtcs h request = Inr [0x43, 0x00]"
  by (simp add: mode_03_read_dtcs_def dtc_list_response_def bytes_of_def)

text \<open>
  Claim C9. The request consisting of the single byte \<open>03\<close>: \<open>process\<close> returns no
  response at all, whatever codes are stored, because it rejects every request shorter
  than two bytes before it looks at the mode. (The handler of mode 03 itself answers
  \<open>43 00\<close> when no CONFIRMED or PERMANENT code is stored, as \<open>mode_03_no_dtcs\<close> shows.)
\<close>

theorem OBD_process_single_byte_03_no_response:
  "OBD_process h [0x03] = (Inr None, h)"
  by (simp add: OBD_process_def)

subsection \<open>Clearing\<close>

lemma clear_loop_False:
  "snd (clear_loop False ds) =
     map (\<lambda>d. if state d \<in> {PENDING, CONFIRMED} then d\<lparr>state := HISTORY\<rparr> else d) ds"
  by (induction ds) (auto split: prod.splits)

lemma clear_loop_codes: "map code (snd (clear_loop cp ds)) = map code ds"
  by (induction ds) (auto split: prod.splits)

lemma in_fold_del_dtc:
  "d \<in> set (fold (\<lambda>x ds. del_dtc (code x) ds) xs ds) \<longleftrightarrow>
     d \<in> set ds \<and> code d \<notin> code ` set xs"
  by (induction xs arbitrary: ds) (auto simp: del_dtc_def)

lemma codes_fold_del_dtc:
  "distinct (map code ds) \<Longrightarrow> distinct (map code (fold (\<lambda>x ds. del_dtc (code x) ds) xs ds))"
  by (induction xs arbitrary: ds) (auto simp: del_dtc_def distinct_map_filter)

lemma cleanup_history_subset: "set (dtcs (cleanup_history n m)) \<subseteq> set (dtcs m)"
  by (auto simp: cleanup_history_def Let_def in_fold_del_dtc)

lemma cleanup_history_distinct:
  "distinct (map code (dtcs m)) \<Longrightarrow> distinct (map code (dtcs (cleanup_history n m)))"
  by (simp add: cleanup_history_def Let_def codes_fold_del_dtc)

lemma cleanup_history_keeps:
  assumes dist: "distinct (map code (dtcs m))" and d: "d \<in> set (dtcs m)" and st: "state d \<noteq> HISTORY"
  shows "d \<in> set (dtcs (cleanup_history n m))"
proof -
  have inj: "inj_on code (set (dtcs m))" using dist by (simp add: distinct_map)
  have key: "code x \<noteq> code d"
    if x: "x \<in> set (take k (sort_key last_detected (get_dtcs_by_state m HISTORY)))" for x k
  proof
    from x have "x \<in> set (sort_key last_detected (get_dtcs_by_state m HISTORY))"
      by (rule in_set_takeD)
    then have xs: "x \<in> set (dtcs m)" "state x = HISTORY"
      by (simp_all add: get_dtcs_by_state_def)
    assume "code x = code d"
    then have "x = d" using inj xs(1) d by (auto dest: inj_onD)
    then show False using xs(2) st by simp
  qed
  then have "code d \<notin> code ` set (take k (sort_key last_detected (get_dtcs_by_state m HISTORY)))"
    for k by force
  then show ?thesis using d
    by (simp add: cleanup_history_def Let_def in_fold_del_dtc)
qed

lemma lookup_dtc_distinct:
  "distinct (map code ds) \<Longrightarrow> d \<in> set ds \<Longrightarrow> lookup_dtc ds (code d) = Some d"
  by (induction ds) (auto simp: lookup_dtc_def)

lemma clear_dtcs_False_no_pending_confirmed:
  "d \<in> set (dtcs (snd (clear_dtcs m False))) \<Longrightarrow> state d \<noteq> PENDING \<and> state d \<noteq> CONFIRMED"
proof -
  assume "d \<in> set (dtcs (snd (clear_dtcs m False)))"
  then have "d \<in> set (dtcs (cleanup_history 10 (m\<lparr>dtcs := snd (clear_loop False (dtcs m))\<rparr>)))"
    by (simp add: clear_dtcs_def split: prod.splits)
  then have "d \<in> set (snd (clear_loop False (dtcs m)))"
    using cleanup_history_subset by fastforce
  then show ?thesis unfolding clear_loop_False by auto
qed

lemma clear_dtcs_False_keeps_permanent:
  assumes dist: "distinct (map code (dtcs m))" and d: "d \<in> set (dtcs m)" and st: "state d = PERMANENT"
  shows "lookup_dtc (dtcs (snd (clear_dtcs m False))) (code d) = Some d"
proof -
  let ?m1 = "m\<lparr>dtcs := snd (clear_loop False (dtcs m))\<rparr>"
  have e: "dtcs (snd (clear_dtcs m False)) = dtcs (cleanup_history 10 ?m1)"
    by (simp add: clear_dtcs_def split: prod.splits)
  have dist1: "distinct (map code (dtcs ?m1))" using dist by (simp add: clear_loop_codes)
  have d1: "d \<in> set (dtcs ?m1)" using d st by (force simp: clear_loop_False)
  have "d \<in> set (dtcs (cleanup_history 10 ?m1))"
    using cleanup_history_keeps [OF dist1 d1] st by simp
  moreover have "distinct (map code (dtcs (cleanup_history 10 ?m1)))"
    using cleanup_history_distinct [OF dist1] .
  ultimately show ?thesis unfolding e by (rule lookup_dtc_distinct [rotated])
qed

text \<open>
  Claim C5. After the clear performed by OBD mode 04 (\<open>clear_dtcs\<close> with
  \<open>clear_permanent = False\<close>, the reset of the drive cycle and of the counters): no stored
  code is PENDING or CONFIRMED, every code that was PERMANENT is still stored unchanged,
  distance-since-clear, distance-with-MIL and the warmup counter are 0 and the ten
  readiness monitors are incomplete. The registry holds at most one entry per code, as a
  dictionary keyed by code does.
\<close>

theorem mode_04_clear_semantics:
  assumes dist: "distinct (map code (dtcs (dtc_manager h)))"
  shows "case mode_04_clear_dtcs h request of
           (r, h') \<Rightarrow>
             r = Inr [0x44] \<and>
             (\<forall>d \<in> set (dtcs (dtc_manager h')). state d \<noteq> PENDING \<and> state d \<noteq> CONFIRMED) \<and>
             (\<forall>d \<in> set (dtcs (dtc_manager h)).
                state d = PERMANENT \<longrightarrow> lookup_dtc (dtcs (dtc_manager h')) (code d) = Some d) \<and>
             distance_since_clear (sensors (vehicle h')) = 0 \<and>
             distance_with_mil (sensors (vehicle h')) = 0 \<and>
             warmups_since_clear (sensors (vehicle h')) = 0 \<and>
             \<not> misfire_monitor_complete (drive_cycle (vehicle h')) \<and>
             \<not> fuel_system_monitor_complete (drive_cycle (vehicle h')) \<and>
             \<not> component_monitor_complete (drive_cycle (vehicle h')) \<and>
             \<not> catalyst_monitor_complete (drive_cycle (vehicle h')) \<and>
             \<not> heated_catalyst_monitor_complete (drive_cycle (vehicle h')) \<and>
             \<not> evap_system_monitor_complete (drive_cycle (vehicle h')) \<and>
             \<not> secondary_air_monitor_complete (drive_cycle (vehicle h')) \<and>
             \<not> oxygen_sensor_monitor_complete (drive_cycle (vehicle h')) \<and>
             \<not> oxygen_sensor_heater_complete (drive_cycle (vehicle h')) \<and>
             \<not> egr_system_monitor_complete (drive_cycle (vehicle h'))"
proof -
  define h' where "h' = snd (mode_04_clear_dtcs h request)"
  have r: "mode_04_clear_dtcs h request = (Inr [0x44], h')"
    by (simp add: h'_def mode_04_clear_dtcs_def Let_def bytes_of_def)
  have dm: "dtc_manager h' = snd (clear_dtcs (dtc_manager h) False)"
    by (simp add: h'_def mode_04_clear_dtcs_def Let_def)
  have dc: "drive_cycle (vehicle h') = DriveCycle_reset (drive_cycle (vehicle h))"
    by (simp add: h'_def mode_04_clear_dtcs_def Let_def reset_drive_cycle_def)
  have s: "sensors (vehicle h') =
             (sensors (vehicle h))\<lparr>distance_since_clear := 0, distance_with_mil := 0,
                                   warmups_since_clear := 0\<rparr>"
    by (simp add: h'_def mode_04_clear_dtcs_def Let_def reset_drive_cycle_def)
  have a: "\<forall>d \<in> set (dtcs (dtc_manager h')). state d \<noteq> PENDING \<and> state d \<noteq> CONFIRMED"
    unfolding dm using clear_dtcs_False_no_pending_confirmed by blast
  have b: "\<forall>d \<in> set (dtcs (dtc_manager h)).
             state d = PERMANENT \<longrightarrow> lookup_dtc (dtcs (dtc_manager h')) (code d) = Some d"
    unfolding dm using clear_dtcs_False_keeps_permanent [OF dist] by blast
  show ?thesis
    unfolding r using a b by (simp add: s dc DriveCycle_reset_def)
qed

theorem mode_04_clear_semantics_witness:
  "distinct (map code (dtcs (dtc_manager
     (new_OBDServiceHandler\<lparr>dtc_manager := foldl apply_operation new_DTCManager
        [Inject ''P0420'' default_SensorData True 0, Inject ''P0420'' default_SensorData True 1,
         Inject ''P0100'' default_SensorData True 2]\<rparr>)))) \<and>
   map state (dtcs (foldl apply_operation new_DTCManager
        [Inject ''P0420'' default_SensorData True 0, Inject ''P0420'' default_SensorData True 1,
         Inject ''P0100'' default_SensorData True 2])) = [PERMANENT, PENDING] \<and>
   (case mode_04_clear_dtcs
      (new_OBDServiceHandler\<lparr>dtc_manager := foldl apply_operation new_DTCManager
        [Inject ''P0420'' default_SensorData True 0, Inject ''P0420'' default_SensorData True 1,
         Inject ''P0100'' default_SensorData True 2]\<rparr>) [0x04, 0x00] of
      (r, h') \<Rightarrow>
        r = Inr [0x44] \<and>
        (\<forall>d \<in> set (dtcs (dtc_manager h')). state d \<noteq> PENDING \<and> state d \<noteq> CONFIRMED) \<and>
        distance_since_clear (sensors (vehicle h')) = 0)"
proof -
  let ?m = "foldl apply_operation new_DTCManager
        [Inject ''P0420'' default_SensorData True 0, Inject ''P0420'' default_SensorData True 1,
         Inject ''P0100'' default_SensorData True 2]"
  have c: "map code (dtcs ?m) = [''P0420'', ''P0100'']"
    by (simp add: inject_dtc_def new_DTCManager_def DTC_DEFINITIONS_def lookup_dtc_def
        update_mil_def redetect_def Let_def)
  have st: "map state (dtcs ?m) = [PERMANENT, PENDING]"
    by (simp add: inject_dtc_def new_DTCManager_def DTC_DEFINITIONS_def lookup_dtc_def
        update_mil_def redetect_def Let_def)
  have d0: "distinct (map code (dtcs ?m))" unfolding c by simp
  have sel: "dtc_manager (new_OBDServiceHandler\<lparr>dtc_manager := ?m\<rparr>) = ?m" by simp
  have d: "distinct (map code (dtcs (dtc_manager (new_OBDServiceHandler\<lparr>dtc_manager := ?m\<rparr>))))"
    unfolding sel by (rule d0)
  show ?thesis
    using mode_04_clear_semantics [OF d, of "[0x04, 0x00]"] d st
    by (auto split: prod.splits)
qed

section \<open>Properties of the UDS engine\<close>

subsection \<open>Session control\<close>

text \<open>
  Claim C10. Service 0x10 with sub-function 0x01, 0x02, 0x03 or 0x04 answers
  \<open>50 sub 00 32 01 F4\<close>, makes the session the one with that value and sets the
  session-activity timestamp to the current time; sub-function 0x03 (EXTENDED) leaves the
  security level unchanged, the other three reset it to LOCKED.
\<close>

theorem session_control_effect:
  assumes len: "length request \<ge> 2" and sub: "unat (request ! 1) \<in> {0x01, 0x02, 0x03, 0x04}"
  shows "case service_10_diagnostic_session h now request of
           (r, h') \<Rightarrow>
             r = Inr (Some [0x50, request ! 1, 0x00, 0x32, 0x01, 0xF4]) \<and>
             DiagnosticSession_value (current_session h') = unat (request ! 1) \<and>
             session_start_time h' = now \<and>
             security_level h' =
               (if unat (request ! 1) = 0x03 then security_level h else LOCKED)"
  using len sub
  by (auto simp: service_10_diagnostic_session_def DiagnosticSession_of_def respond_def Let_def)

theorem session_control_effect_witness:
  "length [0x10, 0x03 :: byte] \<ge> 2 \<and> unat ([0x10, 0x03 :: byte] ! 1) \<in> {0x01, 0x02, 0x03, 0x04} \<and>
   (case service_10_diagnostic_session (new_UDSServiceHandler\<lparr>security_level := LEVEL_1\<rparr>) 42
           [0x10, 0x03] of
      (r, h') \<Rightarrow>
        r = Inr (Some [0x50, 0x03, 0x00, 0x32, 0x01, 0xF4]) \<and>
        current_session h' = EXTENDED \<and> session_start_time h' = 42 \<and>
        security_level h' = LEVEL_1) \<and>
   (case service_10_diagnostic_session (new_UDSServiceHandler\<lparr>security_level := LEVEL_1\<rparr>) 42
           [0x10, 0x02] of
      (r, h') \<Rightarrow>
        r = Inr (Some [0x50, 0x02, 0x00, 0x32, 0x01, 0xF4]) \<and>
        current_session h' = PROGRAMMING \<and> session_start_time h' = 42 \<and>
        security_level h' = LOCKED)"
proof -
  have a: "length [0x10, 0x03 :: byte] \<ge> 2" "unat ([0x10, 0x03 :: byte] ! 1) \<in> {0x01, 0x02, 0x03, 0x04}"
    by simp_all
  have b: "length [0x10, 0x02 :: byte] \<ge> 2" "unat ([0x10, 0x02 :: byte] ! 1) \<in> {0x01, 0x02, 0x03, 0x04}"
    by simp_all
  have v: "DiagnosticSession_value x = 3 \<longleftrightarrow> x = EXTENDED"
    "DiagnosticSession_value x = 2 \<longleftrightarrow> x = PROGRAMMING" for x
    by (cases x; simp)+
  show ?thesis
    using session_control_effect
        [OF a, where h = "new_UDSServiceHandler\<lparr>security_level := LEVEL_1\<rparr>" and now = 42]
      session_control_effect
        [OF b, where h = "new_UDSServiceHandler\<lparr>security_level := LEVEL_1\<rparr>" and now = 42]
    by (auto simp: v split: prod.splits)
qed

subsection \<open>Session-activity timestamp\<close>

lemma sst_check [simp]:
  "session_start_time (check_session_timeout h now service) = session_start_time h"
  by (simp add: check_session_timeout_def)

lemma sst_11 [simp]: "session_start_time (snd (service_11_ecu_reset h request)) = session_start_time h"
  by (simp add: service_11_ecu_reset_def respond_def Let_def)

lemma sst_14 [simp]: "session_start_time (snd (service_14_clear_dtc h request)) = session_start_time h"
  by (simp add: service_14_clear_dtc_def respond_def Let_def)

lemma sst_19 [simp]: "session_start_time (snd (service_19_read_dtc_info h request)) = session_start_time h"
  by (simp add: service_19_read_dtc_info_def respond_def Let_def)

lemma sst_22 [simp]: "session_start_time (snd (service_22_read_data_by_id h request)) = session_start_time h"
  by (simp add: service_22_read_data_by_id_def respond_def Let_def split: option.splits)

lemma sst_27 [simp]: "session_start_time (snd (service_27_security_access h rnd request)) = session_start_time h"
  by (simp add: service_27_security_access_def respond_def Let_def split: option.splits sum.splits)

lemma sst_28 [simp]: "session_start_time (snd (service_28_communication_control h request)) = session_start_time h"
  by (simp add: service_28_communication_control_def respond_def)

lemma sst_2E [simp]: "session_start_time (snd (service_2E_write_data_by_id h request)) = session_start_time h"
  by (simp add: service_2E_write_data_by_id_def respond_def Let_def)

lemma sst_2F [simp]: "session_start_time (snd (service_2F_io_control h request)) = session_start_time h"
  by (simp add: service_2F_io_control_def respond_def Let_def)

lemma sst_31 [simp]: "session_start_time (snd (service_31_routine_control h request)) = session_start_time h"
  by (simp add: service_31_routine_control_def respond_def Let_def)

lemma sst_34 [simp]: "session_start_time (snd (service_34_request_download h request)) = session_start_time h"
  by (simp add: service_34_request_download_def respond_def)

lemma sst_36 [simp]: "session_start_time (snd (service_36_transfer_data h request)) = session_start_time h"
  by (simp add: service_36_transfer_data_def respond_def)

lemma sst_37 [simp]: "session_start_time (snd (service_37_transfer_exit h request)) = session_start_time h"
  by (simp add: service_37_transfer_exit_def respond_def)

lemma sst_85 [simp]: "session_start_time (snd (service_85_control_dtc_setting h request)) = session_start_time h"
  by (simp add: service_85_control_dtc_setting_def respond_def)


lemma cs_11 [simp]: "current_session (snd (service_11_ecu_reset h request)) = current_session h"
  by (simp add: service_11_ecu_reset_def respond_def Let_def)

lemma cs_14 [simp]: "current_session (snd (service_14_clear_dtc h request)) = current_session h"
  by (simp add: service_14_clear_dtc_def respond_def Let_def)

lemma cs_19 [simp]: "current_session (snd (service_19_read_dtc_info h request)) = current_session h"
  by (simp add: service_19_read_dtc_info_def respond_def Let_def)

lemma cs_22 [simp]: "current_session (snd (service_22_read_data_by_id h request)) = current_session h"
  by (simp add: service_22_read_data_by_id_def respond_def Let_def split: option.splits)

lemma cs_27 [simp]: "current_session (snd (service_27_security_access h rnd request)) = current_session h"
  by (simp add: service_27_security_access_def respond_def Let_def split: option.splits sum.splits)

lemma cs_28 [simp]: "current_session (snd (service_28_communication_control h request)) = current_session h"
  by (simp add: service_28_communication_control_def respond_def)

lemma cs_2E [simp]: "current_session (snd (service_2E_write_data_by_id h request)) = current_session h"
  by (simp add: service_2E_write_data_by_id_def respond_def Let_def)

lemma cs_2F [simp]: "current_session (snd (service_2F_io_control h request)) = current_session h"
  by (simp add: service_2F_io_control_def respond_def Let_def)

lemma cs_31 [simp]: "current_session (snd (service_31_routine_control h request)) = current_session h"
  by (simp add: service_31_routine_control_def respond_def Let_def)

lemma cs_34 [simp]: "current_session (snd (service_34_request_download h request)) = current_session h"
  by (simp add: service_34_request_download_def respond_def)

lemma cs_36 [simp]: "current_session (snd (service_36_transfer_data h request)) = current_session h"
  by (simp add: service_36_transfer_data_def respond_def)

lemma cs_37 [simp]: "current_session (snd (service_37_transfer_exit h request)) = current_session h"
  by (simp add: service_37_transfer_exit_def respond_def)

lemma cs_3E [simp]:
  "current_session (snd (service_3E_tester_present h now request)) = current_session h"
  "security_level (snd (service_3E_tester_present h now request)) = security_level h"
  by (simp_all add: service_3E_tester_present_def respond_def Let_def)

lemma cs_85 [simp]: "current_session (snd (service_85_control_dtc_setting h request)) = current_session h"
  by (simp add: service_85_control_dtc_setting_def respond_def)

lemma sto_check [simp]:
  "session_timeout (check_session_timeout h now service) = session_timeout h"
  by (simp add: check_session_timeout_def)

lemma sto_10 [simp]: "session_timeout (snd (service_10_diagnostic_session h now request)) = session_timeout h"
  by (simp add: service_10_diagnostic_session_def respond_def Let_def split: sum.splits)

lemma sto_11 [simp]: "session_timeout (snd (service_11_ecu_reset h request)) = session_timeout h"
  by (simp add: service_11_ecu_reset_def respond_def Let_def)

lemma sto_14 [simp]: "session_timeout (snd (service_14_clear_dtc h request)) = session_timeout h"
  by (simp add: service_14_clear_dtc_def respond_def Let_def)

lemma sto_19 [simp]: "session_timeout (snd (service_19_read_dtc_info h request)) = session_timeout h"
  by (simp add: service_19_read_dtc_info_def respond_def Let_def)

lemma sto_22 [simp]: "session_timeout (snd (service_22_read_data_by_id h request)) = session_timeout h"
  by (simp add: service_22_read_data_by_id_def respond_def Let_def split: option.splits)

lemma sto_27 [simp]: "session_timeout (snd (service_27_security_access h rnd request)) = session_timeout h"
  by (simp add: service_27_security_access_def respond_def Let_def split: option.splits sum.splits)

lemma sto_28 [simp]: "session_timeout (snd (service_28_communication_control h request)) = session_timeout h"
  by (simp add: service_28_communication_control_def respond_def Let_def)

lemma sto_2E [simp]: "session_timeout (snd (service_2E_write_data_by_id h request)) = session_timeout h"
  by (simp add: service_2E_write_data_by_id_def respond_def Let_def)

lemma sto_2F [simp]: "session_timeout (snd (service_2F_io_control h request)) = session_timeout h"
  by (simp add: service_2F_io_control_def respond_def Let_def)

lemma sto_31 [simp]: "session_timeout (snd (service_31_routine_control h request)) = session_timeout h"
  by (simp add: service_31_routine_control_def respond_def Let_def)

lemma sto_34 [simp]: "session_timeout (snd (service_34_request_download h request)) = session_timeout h"
  by (simp add: service_34_request_download_def respond_def Let_def)

lemma sto_36 [simp]: "session_timeout (snd (service_36_transfer_data h request)) = session_timeout h"
  by (simp add: service_36_transfer_data_def respond_def Let_def)

lemma sto_37 [simp]: "session_timeout (snd (service_37_transfer_exit h request)) = session_timeout h"
  by (simp add: service_37_transfer_exit_def respond_def Let_def)

lemma sto_3E [simp]: "session_timeout (snd (service_3E_tester_present h now request)) = session_timeout h"
  by (simp add: service_3E_tester_present_def respond_def Let_def)

lemma sto_85 [simp]: "session_timeout (snd (service_85_control_dtc_setting h request)) = session_timeout h"
  by (simp add: service_85_control_dtc_setting_def respond_def Let_def)














subsection \<open>Security access\<close>








end
